theory Spec2Isabelle
  imports Main
begin

section \<open>JavaScript values and errors\<close>

text \<open>
  The parser works on data of TypeScript type \<open>any\<close>: whatever \<open>JSON.parse\<close>
  returned. A value is therefore modelled dynamically. Strings are \<open>string\<close>; a
  character stands for a code unit below 256. Numbers are the integers (exactly
  representable in a double below \<open>2^53\<close>; rounding above that and fractions are not
  modelled) together with \<open>NaN\<close>. An object is an association list, read with
  \<open>map_of\<close>.
\<close>

datatype jsval =
    JUndefined
  | JNull
  | JBool bool
  | JNum int
  | JNaN
  | JStr string
  | JArr "jsval list"
  | JObj "(string \<times> jsval) list"

text \<open>
  Every \<open>throw\<close> of the source and every exception of the runtime is a value.
  \<open>Error msg\<close> is \<open>new Error(msg)\<close>; \<open>TypeError\<close> is what a property read on
  \<open>undefined\<close>/\<open>null\<close>, a call of a missing method or an iteration over a
  non-iterable raises; \<open>SyntaxError\<close> is raised by \<open>JSON.parse\<close>.
  \<open>Unmodelled\<close> marks the one place where the model does not follow the runtime
  (the numeric coercion of a non-numeric \<open>length\<close> member of an object).
\<close>

datatype error = Error string | TypeError | SyntaxError | Unmodelled

definition and_then :: "error + 'a \<Rightarrow> ('a \<Rightarrow> error + 'b) \<Rightarrow> error + 'b" where
  "and_then m f = (case m of Inl e \<Rightarrow> Inl e | Inr x \<Rightarrow> f x)"

fun nullish :: "jsval \<Rightarrow> bool" where
  "nullish JUndefined = True"
| "nullish JNull = True"
| "nullish _ = False"

text \<open>\<open>truthy v\<close> is \<open>Boolean(v)\<close>, so \<open>!v\<close> is \<open>\<not> truthy v\<close>.\<close>

fun truthy :: "jsval \<Rightarrow> bool" where
  "truthy JUndefined = False"
| "truthy JNull = False"
| "truthy (JBool b) = b"
| "truthy (JNum n) = (n \<noteq> 0)"
| "truthy JNaN = False"
| "truthy (JStr s) = (s \<noteq> [])"
| "truthy (JArr _) = True"
| "truthy (JObj _) = True"

text \<open>
  \<open>get v k\<close> is the property read \<open>v.k\<close> for a name \<open>k\<close> that is not an array
  index: it throws on \<open>undefined\<close> and \<open>null\<close>, finds own members of an object, the
  \<open>length\<close> of an array or string, and is \<open>undefined\<close> otherwise (none of the names
  the sources read is inherited from a prototype).
\<close>

fun get :: "jsval \<Rightarrow> string \<Rightarrow> error + jsval" where
  "get JUndefined k = Inl TypeError"
| "get JNull k = Inl TypeError"
| "get (JObj kvs) k = Inr (case map_of kvs k of None \<Rightarrow> JUndefined | Some v \<Rightarrow> v)"
| "get (JArr xs) k = Inr (if k = ''length'' then JNum (int (length xs)) else JUndefined)"
| "get (JStr s) k = Inr (if k = ''length'' then JNum (int (length s)) else JUndefined)"
| "get _ k = Inr JUndefined"

text \<open>
  A call of a string method (\<open>replace\<close>, \<open>toLowerCase\<close>, \<open>split\<close>) on a value that
  is not nullish needs the value to be a string: nothing else has the method.
\<close>

fun as_string :: "jsval \<Rightarrow> error + string" where
  "as_string (JStr s) = Inr s"
| "as_string _ = Inl TypeError"

text \<open>Likewise \<open>map\<close> needs an array.\<close>

fun as_array :: "jsval \<Rightarrow> error + jsval list" where
  "as_array (JArr xs) = Inr xs"
| "as_array _ = Inl TypeError"

text \<open>\<open>opt_get v k\<close> is the optional read \<open>v?.k\<close>.\<close>

definition opt_get :: "jsval \<Rightarrow> string \<Rightarrow> error + jsval" where
  "opt_get v k = (if nullish v then Inr JUndefined else get v k)"

subsection \<open>Conversion to string\<close>

function string_of_nat :: "nat \<Rightarrow> string" where
  "string_of_nat n =
     (if n < 10 then [''0123456789'' ! n]
      else string_of_nat (n div 10) @ [''0123456789'' ! (n mod 10)])"
  by pat_completeness auto
termination
  by (relation "measure id") auto

definition string_of_int :: "int \<Rightarrow> string" where
  "string_of_int i = (if i < 0 then CHR ''-'' # string_of_nat (nat (- i)) else string_of_nat (nat i))"

text \<open>
  \<open>to_string v\<close> is the conversion a template literal or a string concatenation
  applies. An array is joined with commas, \<open>undefined\<close> and \<open>null\<close> elements giving
  the empty string. A parsed object has no callable member, so an own member named
  \<open>toString\<close> makes the conversion throw; otherwise the inherited method answers
  \<open>[object Object]\<close>.
\<close>

fun to_string :: "jsval \<Rightarrow> error + string"
  and join_comma :: "jsval list \<Rightarrow> error + string" where
  "to_string JUndefined = Inr ''undefined''"
| "to_string JNull = Inr ''null''"
| "to_string (JBool b) = Inr (if b then ''true'' else ''false'')"
| "to_string (JNum n) = Inr (string_of_int n)"
| "to_string JNaN = Inr ''NaN''"
| "to_string (JStr s) = Inr s"
| "to_string (JArr xs) = join_comma xs"
| "to_string (JObj kvs) =
     (if map_of kvs ''toString'' \<noteq> None then Inl TypeError else Inr ''[object Object]'')"
| "join_comma [] = Inr []"
| "join_comma [x] = (if nullish x then Inr [] else to_string x)"
| "join_comma (x # y # ys) =
     and_then (if nullish x then Inr [] else to_string x) (\<lambda>s.
     and_then (join_comma (y # ys)) (\<lambda>t. Inr (s @ '','' @ t)))"

subsection \<open>Indexed reads\<close>

text \<open>
  \<open>get_idx v i\<close> is \<open>v[i]\<close> for a number \<open>i\<close>: an element of an array or a
  one-character string when \<open>i\<close> is in range, the member named by the decimal
  form of \<open>i\<close> for an object, \<open>undefined\<close> otherwise.
\<close>

fun get_idx :: "jsval \<Rightarrow> jsval \<Rightarrow> error + jsval" where
  "get_idx JUndefined i = Inl TypeError"
| "get_idx JNull i = Inl TypeError"
| "get_idx (JArr xs) (JNum n) =
     Inr (if 0 \<le> n \<and> n < int (length xs) then xs ! nat n else JUndefined)"
| "get_idx (JStr s) (JNum n) =
     Inr (if 0 \<le> n \<and> n < int (length s) then JStr [s ! nat n] else JUndefined)"
| "get_idx (JObj kvs) i =
     and_then (to_string i) (\<lambda>k. get (JObj kvs) k)"
| "get_idx _ i = Inr JUndefined"

definition opt_get_idx :: "jsval \<Rightarrow> jsval \<Rightarrow> error + jsval" where
  "opt_get_idx v i = (if nullish v then Inr JUndefined else get_idx v i)"

text \<open>
  \<open>minus_one v\<close> is \<open>v - 1\<close>. The coercion of a string, array or object to a
  number is not followed.
\<close>

fun minus_one :: "jsval \<Rightarrow> error + jsval" where
  "minus_one (JNum n) = Inr (JNum (n - 1))"
| "minus_one JNaN = Inr JNaN"
| "minus_one JUndefined = Inr JNaN"
| "minus_one JNull = Inr (JNum (- 1))"
| "minus_one (JBool b) = Inr (JNum (if b then 0 else - 1))"
| "minus_one _ = Inl Unmodelled"

text \<open>\<open>last_of v\<close> is \<open>v[v.length - 1]\<close>.\<close>

definition last_of :: "jsval \<Rightarrow> error + jsval" where
  "last_of v =
     and_then (get v ''length'') (\<lambda>len.
     and_then (minus_one len) (\<lambda>i. get_idx v i))"

subsection \<open>String primitives\<close>

definition starts_with :: "string \<Rightarrow> string \<Rightarrow> bool" where
  "starts_with s p = (take (length p) s = p)"

text \<open>\<open>includes_str s sub\<close> is \<open>s.includes(sub)\<close>.\<close>

fun includes_str :: "string \<Rightarrow> string \<Rightarrow> bool" where
  "includes_str [] sub = (sub = [])"
| "includes_str (c # cs) sub = (starts_with (c # cs) sub \<or> includes_str cs sub)"

text \<open>\<open>split_str sep s\<close> is \<open>s.split(sep)\<close> for a non-empty separator string.\<close>

function split_from :: "string \<Rightarrow> string \<Rightarrow> string \<Rightarrow> string list" where
  "split_from sep cur [] = [cur]"
| "split_from sep cur (c # cs) =
     (if sep \<noteq> [] \<and> starts_with (c # cs) sep
      then cur # split_from sep [] (drop (length sep) (c # cs))
      else split_from sep (cur @ [c]) cs)"
  by pat_completeness auto
termination
  by (relation "measure (\<lambda>(sep, cur, s). length s)") auto

definition split_str :: "string \<Rightarrow> string \<Rightarrow> string list" where
  "split_str sep s = split_from sep [] s"

text \<open>
  \<open>replace_first pat rep s\<close> is \<open>s.replace(pat, rep)\<close> for a string pattern and a
  replacement without \<open>$\<close>: the first occurrence is replaced.
\<close>

fun replace_first :: "string \<Rightarrow> string \<Rightarrow> string \<Rightarrow> string" where
  "replace_first pat rep [] = (if pat = [] then rep else [])"
| "replace_first pat rep (c # cs) =
     (if starts_with (c # cs) pat then rep @ drop (length pat) (c # cs)
      else c # replace_first pat rep cs)"

definition is_digit :: "char \<Rightarrow> bool" where
  "is_digit c = (c \<in> set ''0123456789'')"

text \<open>\<open>strip_non_digits s\<close> is \<open>s.replace(/[^0-9]/g, '')\<close>.\<close>

definition strip_non_digits :: "string \<Rightarrow> string" where
  "strip_non_digits s = filter is_digit s"

text \<open>The characters \<open>\s\<close> matches, and that \<open>parseInt\<close> skips, below 256.\<close>

definition is_space :: "char \<Rightarrow> bool" where
  "is_space c = (c \<in> set [CHR 0x09, CHR 0x0A, CHR 0x0B, CHR 0x0C, CHR 0x0D, CHR 0x20, CHR 0xA0])"

definition to_lower_char :: "char \<Rightarrow> char" where
  "to_lower_char c =
     (case List.find (\<lambda>p. fst p = c) (zip ''ABCDEFGHIJKLMNOPQRSTUVWXYZ'' ''abcdefghijklmnopqrstuvwxyz'') of
        None \<Rightarrow> c | Some p \<Rightarrow> snd p)"

definition toLowerCase :: "string \<Rightarrow> string" where
  "toLowerCase s = map to_lower_char s"

subsection \<open>parseInt\<close>

text \<open>
  \<open>parseInt s\<close> without a radix: leading white space is skipped, a sign is read, a
  prefix \<open>0x\<close>/\<open>0X\<close> selects base 16, and the longest run of digits of the base is
  the value; no digit gives \<open>NaN\<close>.
\<close>

definition digit_val :: "char \<Rightarrow> nat option" where
  "digit_val c =
     map_option snd (List.find (\<lambda>p. fst p = c)
       (zip ''0123456789abcdefABCDEF'' [0, 1, 2, 3, 4, 5, 6, 7, 8, 9, 10, 11, 12, 13, 14, 15, 10, 11, 12, 13, 14, 15]))"

definition is_radix_digit :: "nat \<Rightarrow> char \<Rightarrow> bool" where
  "is_radix_digit r c = (case digit_val c of None \<Rightarrow> False | Some d \<Rightarrow> d < r)"

definition radix_value :: "nat \<Rightarrow> string \<Rightarrow> nat" where
  "radix_value r ds =
     foldl (\<lambda>acc c. acc * r + (case digit_val c of None \<Rightarrow> 0 | Some d \<Rightarrow> d)) 0 ds"

definition parse_digits :: "nat \<Rightarrow> string \<Rightarrow> jsval" where
  "parse_digits r s =
     (let ds = takeWhile (is_radix_digit r) s
      in if ds = [] then JNaN else JNum (int (radix_value r ds)))"

definition parse_unsigned :: "string \<Rightarrow> jsval" where
  "parse_unsigned s =
     (if starts_with s ''0x'' \<or> starts_with s ''0X'' then parse_digits 16 (drop 2 s)
      else parse_digits 10 s)"

definition negate :: "jsval \<Rightarrow> jsval" where
  "negate v = (case v of JNum n \<Rightarrow> JNum (- n) | _ \<Rightarrow> v)"

definition parseInt :: "string \<Rightarrow> jsval" where
  "parseInt s =
     (case dropWhile is_space s of
        [] \<Rightarrow> JNaN
      | c # cs \<Rightarrow>
          if c = CHR ''-'' then negate (parse_unsigned cs)
          else if c = CHR ''+'' then parse_unsigned cs
          else parse_unsigned (c # cs))"

text \<open>Arithmetic on numbers: \<open>NaN\<close> is absorbing.\<close>

fun js_add :: "jsval \<Rightarrow> jsval \<Rightarrow> jsval" where
  "js_add (JNum a) (JNum b) = JNum (a + b)"
| "js_add _ _ = JNaN"

fun js_mul :: "jsval \<Rightarrow> int \<Rightarrow> jsval" where
  "js_mul (JNum a) k = JNum (a * k)"
| "js_mul _ k = JNaN"

text \<open>
  \<open>get_path v [k1, k2, ...]\<close> is the chain of reads \<open>v.k1.k2...\<close>, which throws at
  the first \<open>undefined\<close> or \<open>null\<close> on the way.
\<close>

fun get_path :: "jsval \<Rightarrow> string list \<Rightarrow> error + jsval" where
  "get_path v [] = Inr v"
| "get_path v (k # ks) = and_then (get v k) (\<lambda>w. get_path w ks)"

text \<open>\<open>map_err f xs\<close> is \<open>xs.map(f)\<close> for a callback that may throw.\<close>

fun map_err :: "('a \<Rightarrow> error + 'b) \<Rightarrow> 'a list \<Rightarrow> error + 'b list" where
  "map_err f [] = Inr []"
| "map_err f (x # xs) =
     and_then (f x) (\<lambda>y. and_then (map_err f xs) (\<lambda>ys. Inr (y # ys)))"

text \<open>\<open>join_empty xs\<close> is \<open>xs.join('')\<close>.\<close>

fun join_empty :: "jsval list \<Rightarrow> error + string" where
  "join_empty [] = Inr []"
| "join_empty (x # xs) =
     and_then (if nullish x then Inr [] else to_string x) (\<lambda>s.
     and_then (join_empty xs) (\<lambda>t. Inr (s @ t)))"

section \<open>The search-result parser (parser.ts)\<close>

subsection \<open>parseDuration\<close>

text \<open>
  A falsy argument gives 0. Any other argument must have a \<open>split\<close> method, that
  is, be a string. The \<open>switch\<close> on the number of parts is the case distinction on
  the list; \<open>split\<close> never returns an empty list.
\<close>

definition parseDuration :: "jsval \<Rightarrow> error + jsval" where
  "parseDuration duration =
     (if \<not> truthy duration then Inr (JNum 0)
      else
        and_then (as_string duration) (\<lambda>s.
          case split_str '':'' s of
            [a0, a1, a2] \<Rightarrow>
              Inr (js_add (js_add (js_mul (js_mul (parseInt a0) 60) 60) (js_mul (parseInt a1) 60))
                     (parseInt a2))
          | [a0, a1] \<Rightarrow> Inr (js_add (js_mul (parseInt a0) 60) (parseInt a1))
          | a0 # _ \<Rightarrow> Inr (parseInt a0)
          | [] \<Rightarrow> Inr JNaN))"

subsection \<open>What the extractors hand to the entity classes\<close>

text \<open>
  The classes \<open>YouTubeVideo\<close>, \<open>YouTubeChannel\<close> and \<open>YouTubePlayList\<close> are not
  part of these sources. An entity is represented by the object literal its
  constructor receives, one record field per member, in the order of the literal.
\<close>

record video_channel =
  vc_id :: jsval
  vc_name :: jsval
  vc_url :: string
  vc_icons :: jsval
  vc_verified :: bool
  vc_artist :: bool

record YouTubeVideo =
  v_id :: jsval
  v_url :: string
  v_title :: jsval
  v_description :: string
  v_duration :: jsval
  v_duration_raw :: jsval
  v_thumbnails :: jsval
  v_channel :: video_channel
  v_uploadedAt :: jsval
  v_views :: jsval
  v_live :: bool

record channel_icon =
  ci_url :: string
  ci_width :: jsval
  ci_height :: jsval

record YouTubeChannel =
  c_id :: jsval
  c_name :: jsval
  c_icon :: channel_icon
  c_url :: string
  c_verified :: bool
  c_artist :: bool
  c_subscribers :: jsval

record playlist_thumbnail =
  pt_id :: jsval
  pt_url :: jsval
  pt_height :: jsval
  pt_width :: jsval

record playlist_channel =
  pc_id :: jsval
  pc_name :: jsval
  pc_url :: string

record YouTubePlayList =
  p_id :: jsval
  p_title :: jsval
  p_thumbnail :: playlist_thumbnail
  p_channel :: playlist_channel
  p_videos :: jsval

subsection \<open>Shared pieces of the three extractors\<close>

text \<open>
  \<open>badge_of r\<close> is \<open>r.ownerBadges?.[0]?.metadataBadgeRenderer?.style?.toLowerCase()\<close>:
  \<open>None\<close> is \<open>undefined\<close>; a style that is neither nullish nor a string has no
  such method.
\<close>

definition badge_of :: "jsval \<Rightarrow> error + string option" where
  "badge_of r =
     and_then (get r ''ownerBadges'') (\<lambda>ob.
     and_then (opt_get_idx ob (JNum 0)) (\<lambda>b0.
     and_then (opt_get b0 ''metadataBadgeRenderer'') (\<lambda>m.
     and_then (opt_get m ''style'') (\<lambda>st.
       if nullish st then Inr None
       else and_then (as_string st) (\<lambda>s. Inr (Some (toLowerCase s)))))))"

text \<open>\<open>badge_has badge w\<close> is \<open>Boolean(badge?.includes(w))\<close>.\<close>

definition badge_has :: "string option \<Rightarrow> string \<Rightarrow> bool" where
  "badge_has badge w = (case badge of None \<Rightarrow> False | Some s \<Rightarrow> includes_str s w)"

text \<open>
  The canonical URL: the short path if it is truthy, else the command-metadata URL,
  behind the fixed origin.
\<close>

definition canonical_url :: "jsval \<Rightarrow> error + string" where
  "canonical_url x =
     and_then (get_path x [''navigationEndpoint'', ''browseEndpoint'', ''canonicalBaseUrl'']) (\<lambda>a.
     and_then (if truthy a then Inr a
               else get_path x [''navigationEndpoint'', ''commandMetadata'', ''webCommandMetadata'', ''url'']) (\<lambda>u.
     and_then (to_string u) (\<lambda>s. Inr (''https://www.youtube.com'' @ s))))"

subsection \<open>parseChannel\<close>

definition parseChannel :: "jsval \<Rightarrow> error + YouTubeChannel" where
  "parseChannel data =
     (if \<not> truthy data then Inl (Error ''Failed to Parse YouTube Channel'') else
      and_then (get data ''channelRenderer'') (\<lambda>cr.
      if \<not> truthy cr then Inl (Error ''Failed to Parse YouTube Channel'') else
      and_then (badge_of cr) (\<lambda>badge.
      and_then (canonical_url cr) (\<lambda>url.
      and_then (get_path cr [''thumbnail'', ''thumbnails'']) (\<lambda>thumbnails.
      and_then (last_of thumbnails) (\<lambda>thumbnail.
      and_then (get cr ''channelId'') (\<lambda>channelId.
      and_then (get_path cr [''title'', ''simpleText'']) (\<lambda>name.
      and_then (get thumbnail ''url'') (\<lambda>turl.
      and_then (as_string turl) (\<lambda>turl_s.
      and_then (get thumbnail ''width'') (\<lambda>width.
      and_then (get thumbnail ''height'') (\<lambda>height.
      and_then (get cr ''subscriberCountText'') (\<lambda>sct.
      and_then (opt_get sct ''simpleText'') (\<lambda>subs.
        Inr \<lparr>c_id = channelId, c_name = name,
             c_icon = \<lparr>ci_url = replace_first ''//'' ''https://'' turl_s, ci_width = width, ci_height = height\<rparr>,
             c_url = url,
             c_verified = badge_has badge ''verified'',
             c_artist = badge_has badge ''artist'',
             c_subscribers = (if nullish subs then JStr ''0 subscribers'' else subs)\<rparr>))))))))))))))"

subsection \<open>parseVideo\<close>

text \<open>
  \<open>description_of vr\<close> is the \<open>description\<close> member: the condition short-circuits
  only on a nullish \<open>detailedMetadataSnippets\<close>; when the length is truthy the runs
  must be an array (nothing else has \<open>map\<close>).
\<close>

definition description_of :: "jsval \<Rightarrow> error + string" where
  "description_of vr =
     and_then (get vr ''detailedMetadataSnippets'') (\<lambda>dms.
     and_then (if nullish dms then Inr JUndefined
               else and_then (get_idx dms (JNum 0)) (\<lambda>d0.
                    get_path d0 [''snippetText'', ''runs'', ''length''])) (\<lambda>len.
       if truthy len then
         and_then (get_idx dms (JNum 0)) (\<lambda>d0.
         and_then (get_path d0 [''snippetText'', ''runs'']) (\<lambda>runs.
           and_then (as_array runs) (\<lambda>rs.
           and_then (map_err (\<lambda>run. get run ''text'') rs) join_empty)))
       else Inr []))"

text \<open>
  \<open>views_of vr\<close> is \<open>vr.viewCountText?.simpleText?.replace(/[^0-9]/g, '') ?? 0\<close>.
  No \<open>parseInt\<close> is applied here: a present text gives the string of its digits.
\<close>

definition views_of :: "jsval \<Rightarrow> error + jsval" where
  "views_of vr =
     and_then (get vr ''viewCountText'') (\<lambda>vct.
     and_then (opt_get vct ''simpleText'') (\<lambda>st.
     and_then (if nullish st then Inr JUndefined
               else and_then (as_string st) (\<lambda>s. Inr (JStr (strip_non_digits s)))) (\<lambda>r.
       Inr (if nullish r then JNum 0 else r))))"

definition parseVideo :: "jsval \<Rightarrow> error + YouTubeVideo" where
  "parseVideo data =
     (if \<not> truthy data then Inl (Error ''Failed to Parse YouTube Video'') else
      and_then (get data ''videoRenderer'') (\<lambda>vr.
      if \<not> truthy vr then Inl (Error ''Failed to Parse YouTube Video'') else
      and_then (get_path vr [''ownerText'', ''runs'']) (\<lambda>oruns.
      and_then (get_idx oruns (JNum 0)) (\<lambda>channel.
      and_then (badge_of vr) (\<lambda>badge.
      and_then (get vr ''lengthText'') (\<lambda>durationText.
      and_then (get vr ''videoId'') (\<lambda>videoId.
      and_then (to_string videoId) (\<lambda>vid.
      and_then (get_path vr [''title'', ''runs'']) (\<lambda>truns.
      and_then (get_idx truns (JNum 0)) (\<lambda>t0.
      and_then (get t0 ''text'') (\<lambda>title.
      and_then (description_of vr) (\<lambda>description.
      and_then (if truthy durationText
                then and_then (get durationText ''simpleText'') parseDuration
                else Inr (JNum 0)) (\<lambda>duration.
      and_then (if truthy durationText then get durationText ''simpleText'' else Inr JNull) (\<lambda>duration_raw.
      and_then (get_path vr [''thumbnail'', ''thumbnails'']) (\<lambda>thumbnails.
      and_then (get_path channel [''navigationEndpoint'', ''browseEndpoint'', ''browseId'']) (\<lambda>browseId.
      and_then (get channel ''text'') (\<lambda>ctext.
      and_then (canonical_url channel) (\<lambda>curl.
      and_then (get_path vr [''channelThumbnailSupportedRenderers'',
                  ''channelThumbnailWithLinkRenderer'', ''thumbnail'', ''thumbnails'']) (\<lambda>icons.
      and_then (get vr ''publishedTimeText'') (\<lambda>ptt.
      and_then (opt_get ptt ''simpleText'') (\<lambda>uploaded.
      and_then (views_of vr) (\<lambda>views.
        Inr \<lparr>v_id = videoId,
             v_url = ''https://www.youtube.com/watch?v='' @ vid,
             v_title = title,
             v_description = description,
             v_duration = duration,
             v_duration_raw = duration_raw,
             v_thumbnails = thumbnails,
             v_channel = \<lparr>vc_id = (if truthy browseId then browseId else JNull),
                          vc_name = (if truthy ctext then ctext else JNull),
                          vc_url = curl,
                          vc_icons = icons,
                          vc_verified = badge_has badge ''verified'',
                          vc_artist = badge_has badge ''artist''\<rparr>,
             v_uploadedAt = (if nullish uploaded then JNull else uploaded),
             v_views = views,
             v_live = (if truthy durationText then False else True)\<rparr>))))))))))))))))))))))"

subsection \<open>The view count of a video entity\<close>


subsection \<open>parsePlaylist\<close>

text \<open>
  The channel is \<open>shortBylineText.runs?.[0]\<close>; each of its three uses is an
  optional chain that is \<open>undefined\<close> for a nullish channel and throws at a
  missing link otherwise.
\<close>

definition opt_path :: "jsval \<Rightarrow> string list \<Rightarrow> error + jsval" where
  "opt_path v ks = (if nullish v then Inr JUndefined else get_path v ks)"

definition parsePlaylist :: "jsval \<Rightarrow> error + YouTubePlayList" where
  "parsePlaylist data =
     (if \<not> truthy data then Inl (Error ''Failed to Parse YouTube Playlist'') else
      and_then (get data ''playlistRenderer'') (\<lambda>pr.
      if \<not> truthy pr then Inl (Error ''Failed to Parse YouTube Playlist'') else
      and_then (get pr ''thumbnails'') (\<lambda>outer.
      and_then (get_idx outer (JNum 0)) (\<lambda>first.
      and_then (get first ''thumbnails'') (\<lambda>thumbnails.
      and_then (last_of thumbnails) (\<lambda>thumbnail.
      and_then (get_path pr [''shortBylineText'', ''runs'']) (\<lambda>runs.
      and_then (opt_get_idx runs (JNum 0)) (\<lambda>channel.
      and_then (get pr ''playlistId'') (\<lambda>playlistId.
      and_then (get_path pr [''title'', ''simpleText'']) (\<lambda>title.
      and_then (get thumbnail ''url'') (\<lambda>turl.
      and_then (get thumbnail ''height'') (\<lambda>height.
      and_then (get thumbnail ''width'') (\<lambda>width.
      and_then (opt_path channel [''navigationEndpoint'', ''browseEndpoint'', ''browseId'']) (\<lambda>browseId.
      and_then (opt_get channel ''text'') (\<lambda>ctext.
      and_then (opt_path channel [''navigationEndpoint'', ''commandMetadata'', ''webCommandMetadata'', ''url'']) (\<lambda>curl.
      and_then (to_string curl) (\<lambda>curl_s.
      and_then (get pr ''videoCount'') (\<lambda>videoCount.
      and_then (as_string videoCount) (\<lambda>count.
        Inr \<lparr>p_id = playlistId,
             p_title = title,
             p_thumbnail = \<lparr>pt_id = playlistId, pt_url = turl, pt_height = height, pt_width = width\<rparr>,
             p_channel = \<lparr>pc_id = browseId, pc_name = ctext,
                          pc_url = ''https://www.youtube.com'' @ curl_s\<rparr>,
             p_videos = parseInt (strip_non_digits count)\<rparr>)))))))))))))))))))"

subsection \<open>Regular expressions\<close>

text \<open>
  The two regular-expression literals of the sources are written as terms of
  \<open>rexp\<close> and run by derivatives. \<open>Sym p\<close> is a character class. Capture groups
  only record text and are left out.
\<close>

datatype rexp =
    Zero
  | One
  | Sym "char \<Rightarrow> bool"
  | Alt rexp rexp
  | Seq rexp rexp
  | Star rexp

definition chr :: "char \<Rightarrow> rexp" where
  "chr c = Sym (\<lambda>x. x = c)"

fun lit :: "string \<Rightarrow> rexp" where
  "lit [] = One"
| "lit (c # cs) = Seq (chr c) (lit cs)"

definition opt :: "rexp \<Rightarrow> rexp" where
  "opt r = Alt r One"

fun nullable :: "rexp \<Rightarrow> bool" where
  "nullable Zero = False"
| "nullable One = True"
| "nullable (Sym p) = False"
| "nullable (Alt r s) = (nullable r \<or> nullable s)"
| "nullable (Seq r s) = (nullable r \<and> nullable s)"
| "nullable (Star r) = True"

fun deriv :: "char \<Rightarrow> rexp \<Rightarrow> rexp" where
  "deriv c Zero = Zero"
| "deriv c One = Zero"
| "deriv c (Sym p) = (if p c then One else Zero)"
| "deriv c (Alt r s) = Alt (deriv c r) (deriv c s)"
| "deriv c (Seq r s) =
     (if nullable r then Alt (Seq (deriv c r) s) (deriv c s) else Seq (deriv c r) s)"
| "deriv c (Star r) = Seq (deriv c r) (Star r)"

text \<open>\<open>matches r s\<close>: the whole of \<open>s\<close> matches \<open>r\<close> (a pattern between \<open>^\<close> and \<open>$\<close>).\<close>

fun matches :: "rexp \<Rightarrow> string \<Rightarrow> bool" where
  "matches r [] = nullable r"
| "matches r (c # cs) = matches (deriv c r) cs"

text \<open>\<open>match_prefix r s\<close>: a match of \<open>r\<close> starts at the beginning of \<open>s\<close>.\<close>

fun match_prefix :: "rexp \<Rightarrow> string \<Rightarrow> bool" where
  "match_prefix r [] = nullable r"
| "match_prefix r (c # cs) = (nullable r \<or> match_prefix (deriv c r) cs)"

text \<open>
  \<open>split_head r s\<close> is \<open>s.split(r)[0]\<close> for an expression that matches no empty
  string: the text before the leftmost match, or all of \<open>s\<close>.
\<close>

fun split_head :: "rexp \<Rightarrow> string \<Rightarrow> string" where
  "split_head r [] = []"
| "split_head r (c # cs) = (if match_prefix r (c # cs) then [] else c # split_head r cs)"

subsection \<open>ParseSearchResult\<close>

record ParseSearchInterface =
  opt_type :: "string option"
  opt_limit :: "int option"
  opt_language :: "string option"

datatype YouTube = Video YouTubeVideo | Channel YouTubeChannel | PlayList YouTubePlayList

text \<open>The expression \<open>/;\s*(var|const|let)\s/\<close>.\<close>

definition next_statement :: rexp where
  "next_statement =
     Seq (chr CHR '';'')
       (Seq (Star (Sym is_space))
         (Seq (Alt (lit ''var'') (Alt (lit ''const'') (lit ''let''))) (Sym is_space)))"

text \<open>
  The text handed to \<open>JSON.parse\<close>. Without the marker the second element of the
  first split is \<open>undefined\<close>, and the optional chain makes the whole expression
  \<open>undefined\<close> (\<open>None\<close>).
\<close>

definition extract_data :: "string \<Rightarrow> string option" where
  "extract_data html =
     (case split_str ''var ytInitialData = '' html of
        _ # second # _ \<Rightarrow>
          (case split_str '';</script>'' second of
             [] \<Rightarrow> Some []
           | first # _ \<Rightarrow> Some (split_head next_statement first))
      | _ \<Rightarrow> None)"

text \<open>
  \<open>iterate v\<close> lists what \<open>for (const detail of v)\<close> visits: the elements of an
  array, the characters of a string; anything else is not iterable.
\<close>

fun iterate :: "jsval \<Rightarrow> error + jsval list" where
  "iterate (JArr xs) = Inr xs"
| "iterate (JStr s) = Inr (map (\<lambda>c. JStr [c]) s)"
| "iterate _ = Inl TypeError"

text \<open>
  \<open>no_renderer detail\<close> is the condition of the \<open>continue\<close>, with the
  short-circuit of \<open>&&\<close>.
\<close>

definition no_renderer :: "jsval \<Rightarrow> error + bool" where
  "no_renderer detail =
     and_then (get detail ''videoRenderer'') (\<lambda>v.
       if truthy v then Inr False else
     and_then (get detail ''channelRenderer'') (\<lambda>c.
       if truthy c then Inr False else
     and_then (get detail ''playlistRenderer'') (\<lambda>p. Inr (\<not> truthy p))))"

text \<open>
  The \<open>switch\<close> on \<open>options.type\<close>: the entity the matching \<open>case\<close> parses, or
  the error of the \<open>default\<close> branch.
\<close>

definition dispatch :: "string option \<Rightarrow> jsval \<Rightarrow> error + YouTube" where
  "dispatch ty detail =
     (if ty = Some ''video'' then and_then (parseVideo detail) (\<lambda>parsed. Inr (Video parsed))
      else if ty = Some ''channel'' then and_then (parseChannel detail) (\<lambda>parsed. Inr (Channel parsed))
      else if ty = Some ''playlist'' then and_then (parsePlaylist detail) (\<lambda>parsed. Inr (PlayList parsed))
      else Inl (Error (''Unknown search type: '' @ (case ty of None \<Rightarrow> ''undefined'' | Some t \<Rightarrow> t))))"

text \<open>
  The loop over the item list; \<open>results\<close> is the array built so far. An extractor
  returns an instance or throws, so the test \<open>if (parsed)\<close> always succeeds and
  the entity is pushed.
\<close>

fun walk :: "string option \<Rightarrow> bool \<Rightarrow> int option \<Rightarrow> jsval list \<Rightarrow> YouTube list \<Rightarrow> error + YouTube list" where
  "walk ty hasLimit lim [] results = Inr results"
| "walk ty hasLimit lim (detail # rest) results =
     (if hasLimit \<and> Some (int (length results)) = lim then Inr results
      else and_then (no_renderer detail) (\<lambda>skip.
        if skip then walk ty hasLimit lim rest results
        else and_then (dispatch ty detail) (\<lambda>parsed. walk ty hasLimit lim rest (results @ [parsed]))))"

text \<open>
  The defaults: no options at all, or options without a (truthy) type. The limit
  is an integer, as the data model of the specification has it.
\<close>

definition default_options :: "ParseSearchInterface option \<Rightarrow> ParseSearchInterface" where
  "default_options options =
     (case options of
        None \<Rightarrow> \<lparr>opt_type = Some ''video'', opt_limit = Some 0, opt_language = None\<rparr>
      | Some opts \<Rightarrow>
          if opt_type opts = None \<or> opt_type opts = Some [] then opts\<lparr>opt_type := Some ''video''\<rparr>
          else opts)"

definition hasLimit :: "ParseSearchInterface \<Rightarrow> bool" where
  "hasLimit options = (case opt_limit options of None \<Rightarrow> False | Some k \<Rightarrow> k > 0)"

text \<open>The item list: the fixed path into the parsed data, and what the loop visits.\<close>

definition item_list :: "jsval \<Rightarrow> error + jsval list" where
  "item_list json_data =
     and_then (get_path json_data [''contents'', ''twoColumnSearchResultsRenderer'',
                 ''primaryContents'', ''sectionListRenderer'', ''contents'']) (\<lambda>sections.
     and_then (get_idx sections (JNum 0)) (\<lambda>section0.
     and_then (get_path section0 [''itemSectionRenderer'', ''contents'']) (\<lambda>details.
       iterate details)))"

text \<open>
  \<open>JSON.parse\<close> is a parameter. Of \<open>undefined\<close> it makes the text \<open>undefined\<close>,
  which is no JSON.
\<close>

definition ParseSearchResult ::
  "(string \<Rightarrow> error + jsval) \<Rightarrow> string \<Rightarrow> ParseSearchInterface option \<Rightarrow> error + YouTube list" where
  "ParseSearchResult JSON_parse html options0 =
     (if html = [] then Inl (Error ''Can't parse Search result without data'')
      else
        let options = default_options options0 in
        and_then (case extract_data html of None \<Rightarrow> Inl SyntaxError | Some d \<Rightarrow> JSON_parse d) (\<lambda>json_data.
        and_then (item_list json_data) (\<lambda>ds.
          walk (opt_type options) (hasLimit options) (opt_limit options) ds [])))"

section \<open>The SoundCloud module\<close>

text \<open>
  \<open>soundData\<close> is the module variable: \<open>JUndefined\<close> when the data file does not
  exist, else whatever the file parses to. The network primitive \<open>request\<close> and
  \<open>JSON.parse\<close> are parameters; \<open>request\<close> either resolves with a text or rejects
  with an \<open>Error\<close> instance (\<open>Inl\<close>), as the annotation \<open>(err: Error)\<close> of the
  handlers says. An \<open>async\<close> function that throws is one whose promise rejects.
\<close>

text \<open>
  The expression
  \<open>/^(?:(https?):\/\/)?(?:(?:www|m)\.)?(soundcloud\.com|snd\.sc)\/(.*)$/\<close>;
  the dot matches every character but a line terminator. Among the characters of
  a \<open>string\<close> these are line feed and carriage return (the separators U+2028 and
  U+2029 are outside the type \<open>char\<close>).
\<close>

definition line_terminator :: "char \<Rightarrow> bool" where
  "line_terminator c = (c = CHR 0x0A \<or> c = CHR 0x0D)"

definition pattern :: rexp where
  "pattern =
     Seq (opt (Seq (Seq (lit ''http'') (opt (chr CHR ''s''))) (lit ''://'')))
       (Seq (opt (Seq (Alt (lit ''www'') (chr CHR ''m'')) (chr CHR ''.'')))
         (Seq (Alt (lit ''soundcloud.com'') (lit ''snd.sc''))
           (Seq (chr CHR ''/'') (Star (Sym (\<lambda>c. \<not> line_terminator c))))))"

text \<open>
  The classes \<open>SoundCloudTrack\<close>, \<open>SoundCloudPlaylist\<close> and \<open>Stream\<close> are not part
  of these sources. A constructor call is represented by its arguments.
\<close>

datatype resolved =
    NewSoundCloudTrack jsval
  | NewSoundCloudPlaylist jsval jsval

datatype StreamType = OggOpus | Arbitrary

datatype Stream = NewStream jsval StreamType

definition missing_data :: string where
  "missing_data = ''SoundCloud Data is missing'' @ [CHR 0x0A] @ ''Did you forgot to do authorization ?''"

definition soundcloud ::
  "jsval \<Rightarrow> (string \<Rightarrow> error + string) \<Rightarrow> (string \<Rightarrow> error + jsval) \<Rightarrow> string \<Rightarrow> error + resolved" where
  "soundcloud soundData request JSON_parse url =
     (if \<not> truthy soundData then Inl (Error missing_data)
      else if \<not> matches pattern url then Inl (Error ''This is not a SoundCloud URL'')
      else
        and_then (get soundData ''client_id'') (\<lambda>client_id.
        and_then (to_string client_id) (\<lambda>cid.
        and_then (request (''https://api-v2.soundcloud.com/resolve?url='' @ url @ ''&client_id='' @ cid)) (\<lambda>data.
        and_then (JSON_parse data) (\<lambda>json_data.
        and_then (get json_data ''kind'') (\<lambda>kind.
          if kind \<noteq> JStr ''track'' \<and> kind \<noteq> JStr ''playlist''
          then Inl (Error ''This url is out of scope for play-dl.'')
          else if kind = JStr ''track'' then Inr (NewSoundCloudTrack json_data)
          else and_then (get soundData ''client_id'') (\<lambda>client_id'.
                 Inr (NewSoundCloudPlaylist json_data client_id'))))))))"

text \<open>
  The argument of \<open>stream_from_info\<close> has the class type \<open>SoundCloudTrack\<close>; of
  its members the function reads \<open>formats\<close>, and of a format \<open>url\<close> and
  \<open>format.mime_type\<close>.
\<close>

record track_format_info =
  fi_mime_type :: string

record SoundCloudTrackFormat =
  tf_url :: string
  tf_format :: track_format_info

record SoundCloudTrack =
  t_formats :: "SoundCloudTrackFormat list"

text \<open>
  With no format, \<open>data.formats[-1]\<close> is \<open>undefined\<close> and the read of \<open>url\<close>
  throws. The operands of \<open>+\<close> are evaluated from the left, so the format is read
  before the credential.
\<close>

definition stream_from_info ::
  "jsval \<Rightarrow> (string \<Rightarrow> error + string) \<Rightarrow> (string \<Rightarrow> error + jsval) \<Rightarrow> SoundCloudTrack \<Rightarrow> error + Stream" where
  "stream_from_info soundData request JSON_parse data =
     (case t_formats data of
        [] \<Rightarrow> Inl TypeError
      | f0 # fs \<Rightarrow>
          let f = last (f0 # fs) in
          and_then (get soundData ''client_id'') (\<lambda>client_id.
          and_then (to_string client_id) (\<lambda>cid.
          and_then (request (tf_url f @ ''?client_id='' @ cid)) (\<lambda>body.
          and_then (JSON_parse body) (\<lambda>s_data.
            let type = (if starts_with (fi_mime_type (tf_format f)) ''audio/ogg''
                        then OggOpus else Arbitrary) in
            and_then (get s_data ''url'') (\<lambda>u. Inr (NewStream u type)))))))"

text \<open>The handler turns a rejection into a value, so the function never throws.\<close>

definition check_id :: "(string \<Rightarrow> error + string) \<Rightarrow> string \<Rightarrow> error + bool" where
  "check_id request id' =
     (case request (''https://api-v2.soundcloud.com/search?client_id='' @ id' @ ''&q=Rick+Roll&limit=0'') of
        Inl err \<Rightarrow> Inr False
      | Inr response \<Rightarrow> Inr True)"

text \<open>The result is \<open>'track'\<close>, \<open>'playlist'\<close> or \<open>false\<close>.\<close>

definition so_validate ::
  "jsval \<Rightarrow> (string \<Rightarrow> error + string) \<Rightarrow> (string \<Rightarrow> error + jsval) \<Rightarrow> string \<Rightarrow> error + jsval" where
  "so_validate soundData request JSON_parse url =
     and_then (get soundData ''client_id'') (\<lambda>client_id.
     and_then (to_string client_id) (\<lambda>cid.
     and_then (request (''https://api-v2.soundcloud.com/resolve?url='' @ url @ ''&client_id='' @ cid)) (\<lambda>data.
     and_then (JSON_parse data) (\<lambda>json_data.
     and_then (get json_data ''kind'') (\<lambda>kind.
       if kind = JStr ''track'' then Inr (JStr ''track'')
       else if kind = JStr ''playlist'' then Inr (JStr ''playlist'')
       else Inr (JBool False))))))"

section \<open>Vocabulary of the properties\<close>

subsection \<open>Entries of the item list\<close>

text \<open>
  An entry carries a renderer when the member of that name is truthy. The entry
  matches the requested type when it carries the renderer that the extractor of
  that type reads.
\<close>

definition has_renderer :: "string \<Rightarrow> jsval \<Rightarrow> bool" where
  "has_renderer k detail = (case get detail k of Inl e \<Rightarrow> False | Inr r \<Rightarrow> truthy r)"

definition known_type :: "string option \<Rightarrow> bool" where
  "known_type ty = (ty = Some ''video'' \<or> ty = Some ''channel'' \<or> ty = Some ''playlist'')"

definition requested_key :: "string option \<Rightarrow> string" where
  "requested_key ty =
     (if ty = Some ''video'' then ''videoRenderer''
      else if ty = Some ''channel'' then ''channelRenderer''
      else ''playlistRenderer'')"

definition matching :: "string option \<Rightarrow> jsval \<Rightarrow> bool" where
  "matching ty detail = has_renderer (requested_key ty) detail"

text \<open>\<open>parses ty detail entity\<close>: the extractor for \<open>ty\<close> makes \<open>entity\<close> of the entry.\<close>

definition parses :: "string option \<Rightarrow> jsval \<Rightarrow> YouTube \<Rightarrow> bool" where
  "parses ty detail entity = (dispatch ty detail = Inr entity)"

text \<open>
  An entry is well formed for a type when the loop gets past it: it carries none
  of the three renderers, or the extractor of the type succeeds on it.
\<close>

definition well_formed :: "string option \<Rightarrow> jsval \<Rightarrow> bool" where
  "well_formed ty detail = (no_renderer detail = Inr True \<or> \<not> isl (dispatch ty detail))"

text \<open>The error with which the extractor of a type rejects an entry without its renderer.\<close>

definition parse_failure :: "string option \<Rightarrow> error" where
  "parse_failure ty =
     Error (''Failed to Parse YouTube '' @
       (if ty = Some ''video'' then ''Video'' else if ty = Some ''channel'' then ''Channel''
        else ''Playlist''))"

subsection \<open>Durations\<close>

definition digits :: "string \<Rightarrow> bool" where
  "digits s = (s \<noteq> [] \<and> list_all is_digit s)"

text \<open>The number a string of decimal digits denotes.\<close>

definition decimal :: "string \<Rightarrow> nat" where
  "decimal s = foldl (\<lambda>n c. 10 * n + (of_char c - 48)) 0 s"

subsection \<open>The URL shape, in the words of the specification\<close>


text \<open>A text on one line: it has no line terminator.\<close>

definition one_line :: "string \<Rightarrow> bool" where
  "one_line s = list_all (\<lambda>c. \<not> line_terminator c) s"

subsection \<open>The language of a regular expression\<close>




section \<open>Example data\<close>

definition small_thumbnail :: jsval where
  "small_thumbnail =
     JObj [(''url'', JStr ''//img.example/s.jpg''), (''width'', JNum 88), (''height'', JNum 88)]"

definition large_thumbnail :: jsval where
  "large_thumbnail =
     JObj [(''url'', JStr ''//img.example/l.jpg''), (''width'', JNum 176), (''height'', JNum 176)]"

definition example_owner :: jsval where
  "example_owner =
     JObj [(''text'', JStr ''Chan''),
           (''navigationEndpoint'',
              JObj [(''browseEndpoint'',
                       JObj [(''browseId'', JStr ''UC1''), (''canonicalBaseUrl'', JStr ''/c/chan'')]),
                    (''commandMetadata'',
                       JObj [(''webCommandMetadata'', JObj [(''url'', JStr ''/channel/UC1'')])])])]"

text \<open>A video entry with a duration and a view count, and what \<open>parseVideo\<close> makes of it.\<close>

definition example_length_text :: jsval where
  "example_length_text = JObj [(''simpleText'', JStr ''1:02:03'')]"

definition example_view_count_text :: jsval where
  "example_view_count_text = JObj [(''simpleText'', JStr ''1,234,567 views'')]"

definition example_video_renderer :: jsval where
  "example_video_renderer =
     JObj [(''videoId'', JStr ''v1''),
           (''ownerText'', JObj [(''runs'', JArr [example_owner])]),
           (''title'', JObj [(''runs'', JArr [JObj [(''text'', JStr ''Title'')]])]),
           (''lengthText'', example_length_text),
           (''thumbnail'', JObj [(''thumbnails'', JArr [small_thumbnail, large_thumbnail])]),
           (''channelThumbnailSupportedRenderers'',
              JObj [(''channelThumbnailWithLinkRenderer'',
                 JObj [(''thumbnail'', JObj [(''thumbnails'', JArr [small_thumbnail])])])]),
           (''viewCountText'', example_view_count_text)]"

definition example_video :: jsval where
  "example_video = JObj [(''videoRenderer'', example_video_renderer)]"

definition parsed_owner :: video_channel where
  "parsed_owner =
     \<lparr>vc_id = JStr ''UC1'', vc_name = JStr ''Chan'', vc_url = ''https://www.youtube.com/c/chan'',
      vc_icons = JArr [small_thumbnail], vc_verified = False, vc_artist = False\<rparr>"

definition parsed_video :: YouTubeVideo where
  "parsed_video =
     \<lparr>v_id = JStr ''v1'', v_url = ''https://www.youtube.com/watch?v=v1'', v_title = JStr ''Title'',
      v_description = [], v_duration = JNum 3723, v_duration_raw = JStr ''1:02:03'',
      v_thumbnails = JArr [small_thumbnail, large_thumbnail], v_channel = parsed_owner,
      v_uploadedAt = JNull, v_views = JStr ''1234567'', v_live = False\<rparr>"

text \<open>A video entry without duration text and without view count.\<close>

definition example_live_renderer :: jsval where
  "example_live_renderer =
     JObj [(''videoId'', JStr ''v2''),
           (''ownerText'', JObj [(''runs'', JArr [example_owner])]),
           (''title'', JObj [(''runs'', JArr [JObj [(''text'', JStr ''Live'')]])]),
           (''thumbnail'', JObj [(''thumbnails'', JArr [small_thumbnail])]),
           (''channelThumbnailSupportedRenderers'',
              JObj [(''channelThumbnailWithLinkRenderer'',
                 JObj [(''thumbnail'', JObj [(''thumbnails'', JArr [small_thumbnail])])])])]"

definition example_live_video :: jsval where
  "example_live_video = JObj [(''videoRenderer'', example_live_renderer)]"

definition parsed_live_video :: YouTubeVideo where
  "parsed_live_video =
     \<lparr>v_id = JStr ''v2'', v_url = ''https://www.youtube.com/watch?v=v2'', v_title = JStr ''Live'',
      v_description = [], v_duration = JNum 0, v_duration_raw = JNull,
      v_thumbnails = JArr [small_thumbnail], v_channel = parsed_owner,
      v_uploadedAt = JNull, v_views = JNum 0, v_live = True\<rparr>"

text \<open>
  Two video entries whose member \<open>lengthText\<close> is present without a duration
  text: in the first the text is empty, in the second it is missing.
\<close>

definition example_untimed_renderer :: jsval where
  "example_untimed_renderer =
     JObj [(''videoId'', JStr ''v3''),
           (''ownerText'', JObj [(''runs'', JArr [example_owner])]),
           (''title'', JObj [(''runs'', JArr [JObj [(''text'', JStr ''Untimed'')]])]),
           (''lengthText'', JObj [(''simpleText'', JStr [])]),
           (''thumbnail'', JObj [(''thumbnails'', JArr [small_thumbnail])]),
           (''channelThumbnailSupportedRenderers'',
              JObj [(''channelThumbnailWithLinkRenderer'',
                 JObj [(''thumbnail'', JObj [(''thumbnails'', JArr [small_thumbnail])])])])]"

definition example_untimed_video :: jsval where
  "example_untimed_video = JObj [(''videoRenderer'', example_untimed_renderer)]"

definition parsed_untimed_video :: YouTubeVideo where
  "parsed_untimed_video =
     \<lparr>v_id = JStr ''v3'', v_url = ''https://www.youtube.com/watch?v=v3'', v_title = JStr ''Untimed'',
      v_description = [], v_duration = JNum 0, v_duration_raw = JStr [],
      v_thumbnails = JArr [small_thumbnail], v_channel = parsed_owner,
      v_uploadedAt = JNull, v_views = JNum 0, v_live = False\<rparr>"

definition example_textless_renderer :: jsval where
  "example_textless_renderer =
     JObj [(''videoId'', JStr ''v4''),
           (''ownerText'', JObj [(''runs'', JArr [example_owner])]),
           (''title'', JObj [(''runs'', JArr [JObj [(''text'', JStr ''Textless'')]])]),
           (''lengthText'', JObj []),
           (''thumbnail'', JObj [(''thumbnails'', JArr [small_thumbnail])]),
           (''channelThumbnailSupportedRenderers'',
              JObj [(''channelThumbnailWithLinkRenderer'',
                 JObj [(''thumbnail'', JObj [(''thumbnails'', JArr [small_thumbnail])])])])]"

definition example_textless_video :: jsval where
  "example_textless_video = JObj [(''videoRenderer'', example_textless_renderer)]"

definition parsed_textless_video :: YouTubeVideo where
  "parsed_textless_video =
     \<lparr>v_id = JStr ''v4'', v_url = ''https://www.youtube.com/watch?v=v4'', v_title = JStr ''Textless'',
      v_description = [], v_duration = JNum 0, v_duration_raw = JUndefined,
      v_thumbnails = JArr [small_thumbnail], v_channel = parsed_owner,
      v_uploadedAt = JNull, v_views = JNum 0, v_live = False\<rparr>"

text \<open>A channel entry and a playlist entry, each with two thumbnails.\<close>

definition example_channel_renderer :: jsval where
  "example_channel_renderer =
     JObj [(''channelId'', JStr ''UC1''),
           (''title'', JObj [(''simpleText'', JStr ''Chan'')]),
           (''navigationEndpoint'',
              JObj [(''browseEndpoint'',
                 JObj [(''browseId'', JStr ''UC1''), (''canonicalBaseUrl'', JStr ''/c/chan'')])]),
           (''thumbnail'', JObj [(''thumbnails'', JArr [small_thumbnail, large_thumbnail])])]"

definition example_channel :: jsval where
  "example_channel = JObj [(''channelRenderer'', example_channel_renderer)]"

definition parsed_channel :: YouTubeChannel where
  "parsed_channel =
     \<lparr>c_id = JStr ''UC1'', c_name = JStr ''Chan'',
      c_icon = \<lparr>ci_url = ''https://img.example/l.jpg'', ci_width = JNum 176, ci_height = JNum 176\<rparr>,
      c_url = ''https://www.youtube.com/c/chan'', c_verified = False, c_artist = False,
      c_subscribers = JStr ''0 subscribers''\<rparr>"

definition example_playlist_thumbnails :: jsval where
  "example_playlist_thumbnails = JObj [(''thumbnails'', JArr [small_thumbnail, large_thumbnail])]"

definition example_playlist_renderer :: jsval where
  "example_playlist_renderer =
     JObj [(''playlistId'', JStr ''PL1''),
           (''title'', JObj [(''simpleText'', JStr ''List'')]),
           (''thumbnails'', JArr [example_playlist_thumbnails]),
           (''shortBylineText'', JObj [(''runs'', JArr [example_owner])]),
           (''videoCount'', JStr ''12 videos'')]"

definition example_playlist :: jsval where
  "example_playlist = JObj [(''playlistRenderer'', example_playlist_renderer)]"

definition parsed_playlist :: YouTubePlayList where
  "parsed_playlist =
     \<lparr>p_id = JStr ''PL1'', p_title = JStr ''List'',
      p_thumbnail = \<lparr>pt_id = JStr ''PL1'', pt_url = JStr ''//img.example/l.jpg'',
                     pt_height = JNum 176, pt_width = JNum 176\<rparr>,
      p_channel = \<lparr>pc_id = JStr ''UC1'', pc_name = JStr ''Chan'',
                   pc_url = ''https://www.youtube.com/channel/UC1''\<rparr>,
      p_videos = JNum 12\<rparr>"

text \<open>An entry with none of the three renderers.\<close>

definition example_shelf :: jsval where
  "example_shelf = JObj [(''shelfRenderer'', JObj [])]"

text \<open>The parsed data of a page whose item list is \<open>ds\<close>.\<close>

definition envelope :: "jsval list \<Rightarrow> jsval" where
  "envelope ds =
     JObj [(''contents'', JObj [(''twoColumnSearchResultsRenderer'',
       JObj [(''primaryContents'', JObj [(''sectionListRenderer'',
         JObj [(''contents'', JArr [JObj [(''itemSectionRenderer'',
           JObj [(''contents'', JArr ds)])]])])])])])]"

text \<open>
  A page, with \<open>PAYLOAD\<close> standing for the text of the embedded data, and the
  instance of \<open>JSON.parse\<close> that reads this text as a given value.
\<close>

definition example_page :: string where
  "example_page = ''<html><script>var ytInitialData = PAYLOAD;</script></html>''"

definition stub_JSON_parse :: "string \<Rightarrow> jsval \<Rightarrow> string \<Rightarrow> error + jsval" where
  "stub_JSON_parse payload j text = (if text = payload then Inr j else Inl SyntaxError)"

definition search_options :: "string \<Rightarrow> int \<Rightarrow> ParseSearchInterface option" where
  "search_options ty k = Some \<lparr>opt_type = Some ty, opt_limit = Some k, opt_language = None\<rparr>"

text \<open>A credential, a network that answers with a fixed text, and one that fails.\<close>

definition example_soundData :: jsval where
  "example_soundData = JObj [(''client_id'', JStr ''abc'')]"

definition answer :: "string \<Rightarrow> string \<Rightarrow> error + string" where
  "answer body url = Inr body"

definition refuse :: "string \<Rightarrow> error + string" where
  "refuse url = Inl (Error ''connect ECONNREFUSED'')"

definition response_of_kind :: "string \<Rightarrow> jsval" where
  "response_of_kind k = JObj [(''kind'', JStr k), (''id'', JNum 1)]"

definition example_track :: SoundCloudTrack where
  "example_track =
     \<lparr>t_formats = [\<lparr>tf_url = ''https://api-v2.soundcloud.com/media/1/stream'',
                     tf_format = \<lparr>fi_mime_type = ''audio/ogg; codecs=opus''\<rparr>\<rparr>]\<rparr>"


section \<open>Auxiliary facts\<close>

subsection \<open>Results and reads\<close>

lemma and_then_Inr [simp]: "and_then (Inr x) f = f x"
  by (simp add: and_then_def)

lemma and_then_Inl [simp]: "and_then (Inl e) f = Inl e"
  by (simp add: and_then_def)

lemma and_then_eq_Inr: "and_then m f = Inr y \<longleftrightarrow> (\<exists>x. m = Inr x \<and> f x = Inr y)"
  by (cases m) simp_all

lemma not_isl_iff: "\<not> isl m \<longleftrightarrow> (\<exists>y. m = Inr y)"
  by (cases m) simp_all

lemma as_string_eq_Inr [simp]: "as_string x = Inr s \<longleftrightarrow> x = JStr s"
  by (cases x) auto

lemma get_not_nullish: "\<not> nullish d \<Longrightarrow> \<exists>v. get d k = Inr v"
  by (cases d) simp_all

lemma get_nullish: "nullish d \<Longrightarrow> get d k = Inl TypeError"
  by (cases d) simp_all

lemma truthy_not_nullish: "truthy d \<Longrightarrow> \<not> nullish d"
  by (cases d) simp_all

lemma last_of_array: "last_of (JArr ts) = Inr (if ts = [] then JUndefined else last ts)"
  by (auto simp: last_of_def last_conv_nth nat_diff_distrib')

subsection \<open>The guards of the extractors\<close>

lemma parseVideo_guard:
  assumes "parseVideo data = Inr v"
  shows "truthy data \<and> (\<exists>vr. get data ''videoRenderer'' = Inr vr \<and> truthy vr)"
proof -
  from assms have t: "truthy data"
    by (simp add: parseVideo_def split: if_splits)
  then obtain vr where vr: "get data ''videoRenderer'' = Inr vr"
    using get_not_nullish truthy_not_nullish by blast
  with assms t have "truthy vr"
    by (simp add: parseVideo_def split: if_splits)
  with t vr show ?thesis by simp
qed

lemma parseChannel_guard:
  assumes "parseChannel data = Inr c"
  shows "truthy data \<and> (\<exists>cr. get data ''channelRenderer'' = Inr cr \<and> truthy cr)"
proof -
  from assms have t: "truthy data"
    by (simp add: parseChannel_def split: if_splits)
  then obtain cr where cr: "get data ''channelRenderer'' = Inr cr"
    using get_not_nullish truthy_not_nullish by blast
  with assms t have "truthy cr"
    by (simp add: parseChannel_def split: if_splits)
  with t cr show ?thesis by simp
qed

lemma parsePlaylist_guard:
  assumes "parsePlaylist data = Inr p"
  shows "truthy data \<and> (\<exists>pr. get data ''playlistRenderer'' = Inr pr \<and> truthy pr)"
proof -
  from assms have t: "truthy data"
    by (simp add: parsePlaylist_def split: if_splits)
  then obtain pr where pr: "get data ''playlistRenderer'' = Inr pr"
    using get_not_nullish truthy_not_nullish by blast
  with assms t have "truthy pr"
    by (simp add: parsePlaylist_def split: if_splits)
  with t pr show ?thesis by simp
qed

lemma parseVideo_rejects:
  "\<not> has_renderer ''videoRenderer'' d \<Longrightarrow> parseVideo d = Inl (Error ''Failed to Parse YouTube Video'')"
  using get_not_nullish [of d "''videoRenderer''"] truthy_not_nullish [of d]
  by (cases "truthy d") (auto simp: parseVideo_def has_renderer_def)

lemma parseChannel_rejects:
  "\<not> has_renderer ''channelRenderer'' d \<Longrightarrow> parseChannel d = Inl (Error ''Failed to Parse YouTube Channel'')"
  using get_not_nullish [of d "''channelRenderer''"] truthy_not_nullish [of d]
  by (cases "truthy d") (auto simp: parseChannel_def has_renderer_def)

lemma parsePlaylist_rejects:
  "\<not> has_renderer ''playlistRenderer'' d \<Longrightarrow> parsePlaylist d = Inl (Error ''Failed to Parse YouTube Playlist'')"
  using get_not_nullish [of d "''playlistRenderer''"] truthy_not_nullish [of d]
  by (cases "truthy d") (auto simp: parsePlaylist_def has_renderer_def)

subsection \<open>Members of a parsed video, channel and playlist\<close>

lemma parseVideo_live:
  assumes "parseVideo data = Inr v" "get data ''videoRenderer'' = Inr vr"
    "get vr ''lengthText'' = Inr lengthText"
  shows "v_live v = (\<not> truthy lengthText)"
proof -
  from parseVideo_guard [OF assms(1)] assms(2) have "truthy data" "truthy vr" by auto
  with assms show ?thesis
    unfolding parseVideo_def by (clarsimp simp: and_then_eq_Inr)
qed

lemma parseVideo_duration:
  assumes "parseVideo data = Inr v" "get data ''videoRenderer'' = Inr vr"
    "get vr ''lengthText'' = Inr lengthText"
  shows "(truthy lengthText \<longrightarrow>
            (\<exists>t. get lengthText ''simpleText'' = Inr t \<and> parseDuration t = Inr (v_duration v))) \<and>
         (\<not> truthy lengthText \<longrightarrow> v_duration v = JNum 0)"
proof -
  from parseVideo_guard [OF assms(1)] assms(2) have "truthy data" "truthy vr" by auto
  with assms show ?thesis
    unfolding parseVideo_def by (cases "truthy lengthText") (auto simp: and_then_eq_Inr)
qed

lemma parseVideo_thumbnails:
  assumes "parseVideo data = Inr v" "get data ''videoRenderer'' = Inr vr"
  shows "get_path vr [''thumbnail'', ''thumbnails''] = Inr (v_thumbnails v)"
proof -
  from parseVideo_guard [OF assms(1)] assms(2) have "truthy data" "truthy vr" by auto
  with assms show ?thesis
    unfolding parseVideo_def by (clarsimp simp: and_then_eq_Inr)
qed



lemma parseChannel_icon:
  assumes "parseChannel data = Inr c" "get data ''channelRenderer'' = Inr cr"
    "get_path cr [''thumbnail'', ''thumbnails''] = Inr thumbnails"
  shows "\<exists>thumbnail u. last_of thumbnails = Inr thumbnail \<and>
           get thumbnail ''url'' = Inr (JStr u) \<and>
           ci_url (c_icon c) = replace_first ''//'' ''https://'' u \<and>
           get thumbnail ''width'' = Inr (ci_width (c_icon c)) \<and>
           get thumbnail ''height'' = Inr (ci_height (c_icon c))"
proof -
  from parseChannel_guard [OF assms(1)] assms(2) have "truthy data" "truthy cr" by auto
  with assms show ?thesis
    unfolding parseChannel_def by (clarsimp simp: and_then_eq_Inr)
qed

lemma parsePlaylist_thumbnail:
  assumes "parsePlaylist data = Inr p" "get data ''playlistRenderer'' = Inr pr"
    "get pr ''thumbnails'' = Inr outer" "get_idx outer (JNum 0) = Inr first"
    "get first ''thumbnails'' = Inr thumbnails"
  shows "\<exists>thumbnail. last_of thumbnails = Inr thumbnail \<and>
           get thumbnail ''url'' = Inr (pt_url (p_thumbnail p)) \<and>
           get thumbnail ''height'' = Inr (pt_height (p_thumbnail p)) \<and>
           get thumbnail ''width'' = Inr (pt_width (p_thumbnail p))"
proof -
  from parsePlaylist_guard [OF assms(1)] assms(2) have "truthy data" "truthy pr" by auto
  with assms show ?thesis
    unfolding parsePlaylist_def by (clarsimp simp: and_then_eq_Inr)
qed

subsection \<open>Digits and durations\<close>

lemma digit_table:
  "list_all (\<lambda>c. digit_val c = Some (of_char c - 48) \<and> is_radix_digit 10 c \<and> \<not> is_space c \<and>
      c \<noteq> CHR ''-'' \<and> c \<noteq> CHR ''+'' \<and> c \<noteq> CHR '':'' \<and> c \<noteq> CHR ''x'' \<and> c \<noteq> CHR ''X'')
     ''0123456789''"
  by code_simp

lemma digit_val_digit: "is_digit c \<Longrightarrow> digit_val c = Some (of_char c - 48)"
  using digit_table unfolding is_digit_def list_all_iff by blast

lemma digit_radix: "is_digit c \<Longrightarrow> is_radix_digit 10 c"
  using digit_table unfolding is_digit_def list_all_iff by blast

lemma digit_plain:
  "is_digit c \<Longrightarrow> \<not> is_space c \<and> c \<noteq> CHR ''-'' \<and> c \<noteq> CHR ''+'' \<and> c \<noteq> CHR '':'' \<and>
     c \<noteq> CHR ''x'' \<and> c \<noteq> CHR ''X''"
  using digit_table unfolding is_digit_def list_all_iff by blast

lemma radix_value_decimal_acc:
  "list_all is_digit s \<Longrightarrow>
     foldl (\<lambda>acc c. acc * 10 + (case digit_val c of None \<Rightarrow> 0 | Some d \<Rightarrow> d)) n s =
     foldl (\<lambda>n c. 10 * n + (of_char c - 48)) n s"
  by (induction s arbitrary: n) (simp_all add: digit_val_digit mult.commute)

lemma radix_value_decimal: "list_all is_digit s \<Longrightarrow> radix_value 10 s = decimal s"
  using radix_value_decimal_acc [of s 0] by (simp add: radix_value_def decimal_def)

lemma takeWhile_all: "list_all p s \<Longrightarrow> takeWhile p s = s"
  by (induction s) simp_all

lemma parseInt_digits:
  assumes "digits s"
  shows "parseInt s = JNum (int (decimal s))"
proof -
  from assms obtain c cs where s: "s = c # cs" and c: "is_digit c" and cs: "list_all is_digit cs"
    by (cases s) (auto simp: digits_def)
  have all: "list_all (is_radix_digit 10) s"
    using c cs s by (auto simp: list_all_iff digit_radix)
  have "cs = [] \<or> (\<exists>d ds. cs = d # ds \<and> is_digit d)"
    using cs by (cases cs) simp_all
  then have nohex: "\<not> starts_with s ''0x''" "\<not> starts_with s ''0X''"
    using s digit_plain by (auto simp: starts_with_def)
  from s c cs have "list_all is_digit s" by simp
  then have "parse_unsigned s = JNum (int (decimal s))"
    using nohex all s
    by (simp add: parse_unsigned_def parse_digits_def takeWhile_all radix_value_decimal)
  with s c digit_plain [OF c] show ?thesis
    by (simp add: parseInt_def)
qed

lemma split_plain: "CHR '':'' \<notin> set a \<Longrightarrow> split_from '':'' cur a = [cur @ a]"
  by (induction a arbitrary: cur) (auto simp: starts_with_def)

lemma split_colon:
  "CHR '':'' \<notin> set a \<Longrightarrow>
     split_from '':'' cur (a @ CHR '':'' # rest) = (cur @ a) # split_from '':'' [] rest"
  by (induction a arbitrary: cur) (auto simp: starts_with_def)

lemma digits_no_colon: "digits s \<Longrightarrow> CHR '':'' \<notin> set s"
  using digit_plain by (auto simp: digits_def list_all_iff)

lemma truthy_digits: "digits s \<Longrightarrow> truthy (JStr (s @ t))"
  by (simp add: digits_def)

lemma parseDuration_three:
  assumes "digits h" "digits m" "digits s"
  shows "parseDuration (JStr (h @ '':'' @ m @ '':'' @ s)) =
           Inr (JNum (int (decimal h * 60 * 60 + decimal m * 60 + decimal s)))"
proof -
  have "split_str '':'' (h @ '':'' @ m @ '':'' @ s) = [h, m, s]"
    using assms by (simp add: split_str_def split_colon split_plain digits_no_colon)
  with truthy_digits [OF assms(1)] show ?thesis
    by (simp add: parseDuration_def parseInt_digits [OF assms(1)] parseInt_digits [OF assms(2)]
        parseInt_digits [OF assms(3)])
qed

lemma parseDuration_two:
  assumes "digits m" "digits s"
  shows "parseDuration (JStr (m @ '':'' @ s)) = Inr (JNum (int (decimal m * 60 + decimal s)))"
proof -
  have "split_str '':'' (m @ '':'' @ s) = [m, s]"
    using assms by (simp add: split_str_def split_colon split_plain digits_no_colon)
  with truthy_digits [OF assms(1)] show ?thesis
    by (simp add: parseDuration_def parseInt_digits [OF assms(1)] parseInt_digits [OF assms(2)])
qed

lemma parseDuration_one:
  assumes "digits s"
  shows "parseDuration (JStr s) = Inr (JNum (int (decimal s)))"
proof -
  have "split_str '':'' s = [s]"
    using assms by (simp add: split_str_def split_plain digits_no_colon)
  with truthy_digits [OF assms, of "[]"] show ?thesis
    by (simp add: parseDuration_def parseInt_digits [OF assms])
qed


lemma parseVideo_empty_text:
  assumes "parseVideo data = Inr v" "get data ''videoRenderer'' = Inr vr"
    "get vr ''lengthText'' = Inr lengthText" "truthy lengthText"
    "get lengthText ''simpleText'' = Inr t" "\<not> truthy t"
  shows "v_live v = False \<and> v_duration v = JNum 0"
proof -
  from parseVideo_duration [OF assms(1-3)] assms(4,5)
  have "parseDuration t = Inr (v_duration v)" by auto
  with assms(6) have "v_duration v = JNum 0" by (simp add: parseDuration_def)
  with parseVideo_live [OF assms(1-3)] assms(4) show ?thesis by simp
qed

subsection \<open>The loop over the item list\<close>

lemma dispatch_matching:
  assumes "dispatch ty d = Inr e" "known_type ty"
  shows "matching ty d"
  using assms parseVideo_guard [of d] parseChannel_guard [of d] parsePlaylist_guard [of d]
  by (auto simp: dispatch_def known_type_def matching_def requested_key_def has_renderer_def
      and_then_eq_Inr split: if_splits)

lemma dispatch_rejects:
  assumes "\<not> matching ty d" "known_type ty"
  shows "dispatch ty d = Inl (parse_failure ty)"
  using assms parseVideo_rejects [of d] parseChannel_rejects [of d] parsePlaylist_rejects [of d]
  by (auto simp: dispatch_def known_type_def matching_def requested_key_def parse_failure_def)

lemma no_renderer_cases:
  "no_renderer d = Inl TypeError \<and> nullish d \<or>
   no_renderer d = Inr (\<not> (has_renderer ''videoRenderer'' d \<or> has_renderer ''channelRenderer'' d
        \<or> has_renderer ''playlistRenderer'' d)) \<and> \<not> nullish d"
  by (cases d) (simp_all add: no_renderer_def has_renderer_def)

lemma matching_not_skipped:
  assumes "matching ty d" "known_type ty"
  shows "no_renderer d = Inr False"
  using assms no_renderer_cases [of d]
  by (auto simp: matching_def requested_key_def known_type_def has_renderer_def get_nullish)

lemma skipped_not_matching:
  assumes "no_renderer d = Inr True" "known_type ty"
  shows "\<not> matching ty d"
  using assms matching_not_skipped by fastforce

lemma well_formed_cases:
  assumes "well_formed ty d" "known_type ty"
  shows "no_renderer d = Inr True \<and> \<not> matching ty d \<or>
         (\<exists>e. dispatch ty d = Inr e \<and> no_renderer d = Inr False \<and> matching ty d)"
proof (cases "no_renderer d = Inr True")
  case True
  with skipped_not_matching [OF True assms(2)] show ?thesis by simp
next
  case False
  with assms(1) obtain e where e: "dispatch ty d = Inr e"
    by (auto simp: well_formed_def not_isl_iff)
  from dispatch_matching [OF e assms(2)] matching_not_skipped [OF _ assms(2)] e
  show ?thesis by blast
qed

lemma walk_unlimited:
  assumes "known_type ty" "\<forall>d \<in> set ds. well_formed ty d"
  shows "\<exists>rs. walk ty False lim ds acc = Inr (acc @ rs) \<and>
           list_all2 (parses ty) (filter (matching ty) ds) rs"
  using assms(2)
proof (induction ds arbitrary: acc)
  case Nil
  show ?case by simp
next
  case (Cons d ds)
  then have wf: "well_formed ty d" and others: "\<forall>d \<in> set ds. well_formed ty d" by simp_all
  from well_formed_cases [OF wf assms(1)] show ?case
  proof
    assume "no_renderer d = Inr True \<and> \<not> matching ty d"
    with Cons.IH [OF others, of acc] show ?thesis by simp
  next
    assume "\<exists>e. dispatch ty d = Inr e \<and> no_renderer d = Inr False \<and> matching ty d"
    then obtain e where e: "dispatch ty d = Inr e" "no_renderer d = Inr False" "matching ty d"
      by blast
    from Cons.IH [OF others, of "acc @ [e]"] obtain rs where
      "walk ty False lim ds (acc @ [e]) = Inr ((acc @ [e]) @ rs)"
      "list_all2 (parses ty) (filter (matching ty) ds) rs" by blast
    with e have "walk ty False lim (d # ds) acc = Inr (acc @ (e # rs)) \<and>
        list_all2 (parses ty) (filter (matching ty) (d # ds)) (e # rs)"
      by (simp add: parses_def)
    then show ?thesis by blast
  qed
qed

lemma walk_abort:
  assumes "known_type ty" "\<forall>x \<in> set pre. well_formed ty x"
    and "no_renderer d = Inr False" "dispatch ty d = Inl err"
  shows "walk ty False lim (pre @ d # rest) acc = Inl err"
  using assms(2)
proof (induction pre arbitrary: acc)
  case Nil
  with assms(3,4) show ?case by simp
next
  case (Cons x pre)
  then have wf: "well_formed ty x" and others: "\<forall>x \<in> set pre. well_formed ty x" by simp_all
  from well_formed_cases [OF wf assms(1)] Cons.IH [OF others] show ?case by auto
qed

lemma walk_full: "int (length acc) = k \<Longrightarrow> walk ty True (Some k) ds acc = Inr acc"
  by (cases ds) simp_all

lemma walk_limited_length:
  assumes "walk ty True (Some k) ds acc = Inr rs" "int (length acc) \<le> k"
  shows "int (length rs) \<le> k"
  using assms
proof (induction ds arbitrary: acc)
  case Nil
  then show ?case by simp
next
  case (Cons d ds)
  show ?case
  proof (cases "int (length acc) = k")
    case True
    with Cons.prems show ?thesis by simp
  next
    case False
    with Cons.prems obtain skip where sk: "no_renderer d = Inr skip"
      by (auto simp: and_then_eq_Inr)
    show ?thesis
    proof (cases skip)
      case True
      with sk False Cons.prems Cons.IH [of acc] show ?thesis by simp
    next
      case nskip: False
      with sk False Cons.prems obtain e where
        "walk ty True (Some k) ds (acc @ [e]) = Inr rs"
        by (auto simp: and_then_eq_Inr)
      moreover from False Cons.prems(2) have "int (length (acc @ [e])) \<le> k" by simp
      ultimately show ?thesis by (rule Cons.IH)
    qed
  qed
qed

lemma walk_limited_prefix:
  assumes "known_type ty" "\<forall>d \<in> set pre. well_formed ty d"
    and "int (length acc) \<le> k"
    and "k \<le> int (length acc) + int (length (filter (matching ty) pre))"
  shows "\<exists>rs. (\<forall>rest. walk ty True (Some k) (pre @ rest) acc = Inr (acc @ rs)) \<and>
           int (length (acc @ rs)) = k \<and>
           list_all2 (parses ty) (take (nat k - length acc) (filter (matching ty) pre)) rs"
  using assms(2-)
proof (induction pre arbitrary: acc)
  case Nil
  then have "int (length acc) = k" by simp
  then show ?case using walk_full [of acc k ty] by simp
next
  case (Cons d pre)
  then have wf: "well_formed ty d" and others: "\<forall>d \<in> set pre. well_formed ty d" by simp_all
  show ?case
  proof (cases "int (length acc) = k")
    case True
    then show ?thesis using walk_full [of acc k ty] by simp
  next
    case room: False
    with Cons.prems have lt: "int (length acc) < k" by simp
    from well_formed_cases [OF wf assms(1)] show ?thesis
    proof
      assume sk: "no_renderer d = Inr True \<and> \<not> matching ty d"
      with Cons.prems have "k \<le> int (length acc) + int (length (filter (matching ty) pre))" by simp
      from Cons.IH [OF others Cons.prems(2) this] sk room show ?thesis by simp
    next
      assume "\<exists>e. dispatch ty d = Inr e \<and> no_renderer d = Inr False \<and> matching ty d"
      then obtain e where e: "dispatch ty d = Inr e" "no_renderer d = Inr False" "matching ty d"
        by blast
      from lt have l1: "int (length (acc @ [e])) \<le> k" by simp
      from e Cons.prems have l2:
        "k \<le> int (length (acc @ [e])) + int (length (filter (matching ty) pre))" by simp
      from Cons.IH [OF others l1 l2] obtain rs where rs:
        "\<forall>rest. walk ty True (Some k) (pre @ rest) (acc @ [e]) = Inr ((acc @ [e]) @ rs)"
        "int (length ((acc @ [e]) @ rs)) = k"
        "list_all2 (parses ty) (take (nat k - length (acc @ [e])) (filter (matching ty) pre)) rs"
        by blast
      from lt have "nat k - length acc = Suc (nat k - length (acc @ [e]))" by simp
      with rs e room have
        "(\<forall>rest. walk ty True (Some k) ((d # pre) @ rest) acc = Inr (acc @ (e # rs))) \<and>
          int (length (acc @ (e # rs))) = k \<and>
          list_all2 (parses ty) (take (nat k - length acc) (filter (matching ty) (d # pre))) (e # rs)"
        by (simp add: parses_def)
      then show ?thesis by blast
    qed
  qed
qed

lemma walk_all_skipped:
  assumes "\<forall>d \<in> set ds. no_renderer d = Inr True" "hl \<longrightarrow> lim \<noteq> Some 0"
  shows "walk ty hl lim ds [] = Inr []"
  using assms by (induction ds) auto

lemma walk_unknown_first:
  assumes "\<forall>d \<in> set pre. no_renderer d = Inr True" "hl \<longrightarrow> lim \<noteq> Some 0"
    and "no_renderer d = Inr False" "\<not> known_type ty"
  shows "walk ty hl lim (pre @ d # rest) [] =
     Inl (Error (''Unknown search type: '' @ (case ty of None \<Rightarrow> ''undefined'' | Some t \<Rightarrow> t)))"
  using assms by (induction pre) (auto simp: dispatch_def known_type_def)

lemma ParseSearchResult_walk:
  assumes "html \<noteq> []" "extract_data html = Some payload" "JSON_parse payload = Inr json_data"
    "item_list json_data = Inr ds"
  shows "ParseSearchResult JSON_parse html options0 =
     walk (opt_type (default_options options0)) (hasLimit (default_options options0))
       (opt_limit (default_options options0)) ds []"
  using assms by (simp add: ParseSearchResult_def Let_def)

lemma item_list_envelope: "item_list (envelope ds) = Inr ds"
  by (simp add: item_list_def envelope_def)

lemma extract_example_page: "extract_data example_page = Some ''PAYLOAD''"
  by code_simp

subsection \<open>Derivatives and languages\<close>






















lemma one_line_append [simp]: "one_line (a @ b) \<longleftrightarrow> one_line a \<and> one_line b"
  by (simp add: one_line_def)

lemma one_line_Cons [simp]: "one_line (c # s) \<longleftrightarrow> \<not> line_terminator c \<and> one_line s"
  by (simp add: one_line_def)

lemma one_line_Nil [simp]: "one_line []"
  by (simp add: one_line_def)



subsection \<open>Errors of the resolver\<close>





subsection \<open>The examples evaluated\<close>

lemma parse_example_video: "parseVideo example_video = Inr parsed_video"
  by code_simp

lemma parse_example_live_video: "parseVideo example_live_video = Inr parsed_live_video"
  by code_simp

lemma parse_example_channel: "parseChannel example_channel = Inr parsed_channel"
  by code_simp

lemma parse_example_playlist: "parsePlaylist example_playlist = Inr parsed_playlist"
  by code_simp

lemma get_example_video: "get example_video ''videoRenderer'' = Inr example_video_renderer"
  by (simp add: example_video_def)

lemma get_example_live_video: "get example_live_video ''videoRenderer'' = Inr example_live_renderer"
  by (simp add: example_live_video_def)

lemma get_example_channel: "get example_channel ''channelRenderer'' = Inr example_channel_renderer"
  by (simp add: example_channel_def)

lemma get_example_playlist: "get example_playlist ''playlistRenderer'' = Inr example_playlist_renderer"
  by (simp add: example_playlist_def)

lemma parse_example_untimed_video: "parseVideo example_untimed_video = Inr parsed_untimed_video"
  by code_simp

lemma parse_example_textless_video: "parseVideo example_textless_video = Inr parsed_textless_video"
  by code_simp

lemma get_example_untimed_video:
  "get example_untimed_video ''videoRenderer'' = Inr example_untimed_renderer"
  by (simp add: example_untimed_video_def)

lemma get_example_textless_video:
  "get example_textless_video ''videoRenderer'' = Inr example_textless_renderer"
  by (simp add: example_textless_video_def)



section \<open>The claims\<close>

subsection \<open>C5: durations and live entries\<close>

text \<open>
  Claim C5 has a video entry live exactly when its duration text is absent, an
  empty text counting as absent. Counterexample: \<open>parseVideo\<close> tests the member
  \<open>lengthText\<close>, the object that holds the duration text \<open>simpleText\<close>, not the
  text. For the entry whose \<open>lengthText\<close> is the empty object the duration text
  is absent, and for the entry whose \<open>lengthText\<close> holds the empty text it is
  empty; both get the duration 0 and are not live.
\<close>

theorem parseVideo_present_lengthText_not_live:
  "get example_textless_renderer ''lengthText'' = Inr (JObj []) \<and>
   get (JObj []) ''simpleText'' = Inr JUndefined \<and>
   parseVideo example_textless_video = Inr parsed_textless_video \<and>
   v_duration parsed_textless_video = JNum 0 \<and>
   v_live parsed_textless_video = False \<and>
   get_path example_untimed_renderer [''lengthText'', ''simpleText''] = Inr (JStr []) \<and>
   parseVideo example_untimed_video = Inr parsed_untimed_video \<and>
   v_duration parsed_untimed_video = JNum 0 \<and>
   v_live parsed_untimed_video = False"
  using parse_example_textless_video parse_example_untimed_video
  by (simp add: example_textless_renderer_def example_untimed_renderer_def
      parsed_textless_video_def parsed_untimed_video_def)

text \<open>
  Claim C5 (amended). Duration text is converted positionally to seconds:
  \<open>1:02:03\<close> gives 3723, \<open>02:03\<close> gives 123, \<open>45\<close> gives 45, an empty or absent
  text gives 0, and in general three, two or one groups of digits count as hours,
  minutes and seconds (stated for groups of at most nine digits, where the
  arithmetic of doubles is exact).
  A video entry is live exactly when its member \<open>lengthText\<close>, the holder of the
  duration text, is absent (not truthy), and its duration is then 0. With
  \<open>lengthText\<close> present the entry is not live and its duration is what
  \<open>parseDuration\<close> makes of the duration text \<open>simpleText\<close>: 0 when that text is
  empty or missing. The example video, of duration text \<open>1:02:03\<close>, has duration
  3723 and is not live; the example without \<open>lengthText\<close> has duration 0 and is
  live.
\<close>

theorem parseDuration_positional_and_live:
  "parseDuration (JStr ''1:02:03'') = Inr (JNum 3723) \<and>
   parseDuration (JStr ''02:03'') = Inr (JNum 123) \<and>
   parseDuration (JStr ''45'') = Inr (JNum 45) \<and>
   parseDuration (JStr []) = Inr (JNum 0) \<and>
   parseDuration JUndefined = Inr (JNum 0) \<and>
   (digits h \<and> digits m \<and> digits s \<and> length h \<le> 9 \<and> length m \<le> 9 \<and> length s \<le> 9 \<longrightarrow>
      parseDuration (JStr (h @ '':'' @ m @ '':'' @ s)) =
        Inr (JNum (int (decimal h * 60 * 60 + decimal m * 60 + decimal s))) \<and>
      parseDuration (JStr (m @ '':'' @ s)) = Inr (JNum (int (decimal m * 60 + decimal s))) \<and>
      parseDuration (JStr s) = Inr (JNum (int (decimal s)))) \<and>
   (parseVideo data = Inr v \<and> get data ''videoRenderer'' = Inr vr \<and>
    get vr ''lengthText'' = Inr lengthText \<longrightarrow>
      v_live v = (\<not> truthy lengthText) \<and>
      (\<not> truthy lengthText \<longrightarrow> v_duration v = JNum 0) \<and>
      (truthy lengthText \<longrightarrow>
         (\<exists>t. get lengthText ''simpleText'' = Inr t \<and> parseDuration t = Inr (v_duration v) \<and>
              (\<not> truthy t \<longrightarrow> v_duration v = JNum 0)))) \<and>
   parseVideo example_video = Inr parsed_video \<and>
   v_duration parsed_video = JNum 3723 \<and> v_live parsed_video = False \<and>
   parseVideo example_live_video = Inr parsed_live_video \<and>
   v_duration parsed_live_video = JNum 0 \<and> v_live parsed_live_video = True"
proof -
  have "parseDuration (JStr ''1:02:03'') = Inr (JNum 3723)" by code_simp
  moreover have "v_duration parsed_video = JNum 3723 \<and> v_live parsed_video = False"
    by (simp add: parsed_video_def)
  moreover have "v_duration parsed_live_video = JNum 0 \<and> v_live parsed_live_video = True"
    by (simp add: parsed_live_video_def)
  moreover have "parseDuration (JStr ''02:03'') = Inr (JNum 123)" by code_simp
  moreover have "parseDuration (JStr ''45'') = Inr (JNum 45)" by code_simp
  moreover have "parseDuration (JStr []) = Inr (JNum 0)" by (simp add: parseDuration_def)
  moreover have "parseDuration JUndefined = Inr (JNum 0)" by (simp add: parseDuration_def)
  moreover have "parseVideo data = Inr v \<and> get data ''videoRenderer'' = Inr vr \<and>
    get vr ''lengthText'' = Inr lengthText \<longrightarrow>
      v_live v = (\<not> truthy lengthText) \<and>
      (\<not> truthy lengthText \<longrightarrow> v_duration v = JNum 0) \<and>
      (truthy lengthText \<longrightarrow>
         (\<exists>t. get lengthText ''simpleText'' = Inr t \<and> parseDuration t = Inr (v_duration v) \<and>
              (\<not> truthy t \<longrightarrow> v_duration v = JNum 0)))"
    using parseVideo_live [of data v vr lengthText] parseVideo_duration [of data v vr lengthText]
      parseVideo_empty_text [of data v vr lengthText]
    by blast
  ultimately show ?thesis
    using parseDuration_three [of h m s] parseDuration_two [of m s] parseDuration_one [of s]
      parse_example_video parse_example_live_video
    by blast
qed

text \<open>
  Witness for C5: the digit groups \<open>1\<close>, \<open>02\<close>, \<open>03\<close>; the example video, whose
  \<open>lengthText\<close> holds a duration text, is not live; the example without
  \<open>lengthText\<close> is live and has duration 0; the example whose \<open>lengthText\<close> holds
  the empty text is not live and has duration 0.
\<close>

theorem parseDuration_positional_and_live_witness:
  "digits ''1'' \<and> digits ''02'' \<and> digits ''03'' \<and>
   parseDuration (JStr (''1'' @ '':'' @ ''02'' @ '':'' @ ''03'')) =
     Inr (JNum (int (decimal ''1'' * 60 * 60 + decimal ''02'' * 60 + decimal ''03''))) \<and>
   parseVideo example_video = Inr parsed_video \<and>
   get example_video ''videoRenderer'' = Inr example_video_renderer \<and>
   get example_video_renderer ''lengthText'' = Inr example_length_text \<and>
   truthy example_length_text \<and> v_live parsed_video = False \<and>
   parseVideo example_live_video = Inr parsed_live_video \<and>
   get example_live_video ''videoRenderer'' = Inr example_live_renderer \<and>
   get example_live_renderer ''lengthText'' = Inr JUndefined \<and>
   v_live parsed_live_video = True \<and> v_duration parsed_live_video = JNum 0 \<and>
   parseVideo example_untimed_video = Inr parsed_untimed_video \<and>
   get example_untimed_video ''videoRenderer'' = Inr example_untimed_renderer \<and>
   get example_untimed_renderer ''lengthText'' = Inr (JObj [(''simpleText'', JStr [])]) \<and>
   v_live parsed_untimed_video = False \<and> v_duration parsed_untimed_video = JNum 0"
proof -
  have d: "digits ''1''" "digits ''02''" "digits ''03''" by code_simp+
  have l: "get example_video_renderer ''lengthText'' = Inr example_length_text"
    by (simp add: example_video_renderer_def)
  have t: "truthy example_length_text" by (simp add: example_length_text_def)
  have u: "get example_live_renderer ''lengthText'' = Inr JUndefined"
    by (simp add: example_live_renderer_def)
  have e: "get example_untimed_renderer ''lengthText'' = Inr (JObj [(''simpleText'', JStr [])])"
    by (simp add: example_untimed_renderer_def)
  from d l t u e parse_example_video get_example_video parse_example_live_video
    get_example_live_video parse_example_untimed_video get_example_untimed_video
    parseDuration_positional_and_live [of "''1''" "''02''" "''03''" example_video parsed_video
      example_video_renderer example_length_text]
    parseDuration_positional_and_live [of "''1''" "''02''" "''03''" example_live_video
      parsed_live_video example_live_renderer JUndefined]
    parseDuration_positional_and_live [of "''1''" "''02''" "''03''" example_untimed_video
      parsed_untimed_video example_untimed_renderer "JObj [(''simpleText'', JStr [])]"]
  show ?thesis by simp
qed

subsection \<open>C2: thumbnails\<close>

text \<open>
  Claim C2 as stated fails for videos. For the example video, whose thumbnails
  list has two elements, \<open>parseVideo\<close> hands over the whole list, not its last
  element.
\<close>

theorem parseVideo_keeps_thumbnail_list:
  "get_path example_video_renderer [''thumbnail'', ''thumbnails''] =
     Inr (JArr [small_thumbnail, large_thumbnail]) \<and>
   parseVideo example_video = Inr parsed_video \<and>
   v_thumbnails parsed_video = JArr [small_thumbnail, large_thumbnail] \<and>
   v_thumbnails parsed_video \<noteq> large_thumbnail"
proof -
  have "get_path example_video_renderer [''thumbnail'', ''thumbnails''] =
     Inr (JArr [small_thumbnail, large_thumbnail])"
    by (simp add: example_video_renderer_def)
  moreover have "v_thumbnails parsed_video = JArr [small_thumbnail, large_thumbnail]"
    by (simp add: parsed_video_def)
  moreover have "JArr [small_thumbnail, large_thumbnail] \<noteq> large_thumbnail"
    by (simp add: large_thumbnail_def)
  ultimately show ?thesis using parse_example_video by simp
qed

text \<open>
  Claim C2 (amended). The channel and the playlist extractor select the last
  element of the source thumbnails list: the list is not empty, the channel's icon
  has the width and height of its last element and that element's URL with the
  first \<open>//\<close> replaced by \<open>https://\<close>, and the playlist's thumbnail has the URL,
  height and width of the last element. The video extractor selects nothing: it
  hands over the thumbnails list as it is.
\<close>

theorem extractors_thumbnail:
  "(parseChannel cdata = Inr c \<and> get cdata ''channelRenderer'' = Inr cr \<and>
    get_path cr [''thumbnail'', ''thumbnails''] = Inr (JArr cts) \<longrightarrow>
      cts \<noteq> [] \<and>
      (\<exists>u. get (last cts) ''url'' = Inr (JStr u) \<and>
           ci_url (c_icon c) = replace_first ''//'' ''https://'' u) \<and>
      get (last cts) ''width'' = Inr (ci_width (c_icon c)) \<and>
      get (last cts) ''height'' = Inr (ci_height (c_icon c))) \<and>
   (parsePlaylist pdata = Inr p \<and> get pdata ''playlistRenderer'' = Inr pr \<and>
    get pr ''thumbnails'' = Inr outer \<and> get_idx outer (JNum 0) = Inr first \<and>
    get first ''thumbnails'' = Inr (JArr pts) \<longrightarrow>
      pts \<noteq> [] \<and>
      get (last pts) ''url'' = Inr (pt_url (p_thumbnail p)) \<and>
      get (last pts) ''height'' = Inr (pt_height (p_thumbnail p)) \<and>
      get (last pts) ''width'' = Inr (pt_width (p_thumbnail p))) \<and>
   (parseVideo vdata = Inr v \<and> get vdata ''videoRenderer'' = Inr vr \<longrightarrow>
      get_path vr [''thumbnail'', ''thumbnails''] = Inr (v_thumbnails v))"
proof (intro conjI impI)
  assume a: "parseChannel cdata = Inr c \<and> get cdata ''channelRenderer'' = Inr cr \<and>
    get_path cr [''thumbnail'', ''thumbnails''] = Inr (JArr cts)"
  then obtain thumbnail u where t: "last_of (JArr cts) = Inr thumbnail"
      "get thumbnail ''url'' = Inr (JStr u)"
      "ci_url (c_icon c) = replace_first ''//'' ''https://'' u"
      "get thumbnail ''width'' = Inr (ci_width (c_icon c))"
      "get thumbnail ''height'' = Inr (ci_height (c_icon c))"
    using parseChannel_icon [of cdata c cr "JArr cts"] by blast
  from t(1,2) have ne: "cts \<noteq> []" and l: "thumbnail = last cts"
    by (auto simp: last_of_array split: if_splits)
  from ne show "cts \<noteq> []" .
  from t l show "\<exists>u. get (last cts) ''url'' = Inr (JStr u) \<and>
      ci_url (c_icon c) = replace_first ''//'' ''https://'' u" by blast
  from t l show "get (last cts) ''width'' = Inr (ci_width (c_icon c))" by simp
  from t l show "get (last cts) ''height'' = Inr (ci_height (c_icon c))" by simp
next
  assume a: "parsePlaylist pdata = Inr p \<and> get pdata ''playlistRenderer'' = Inr pr \<and>
    get pr ''thumbnails'' = Inr outer \<and> get_idx outer (JNum 0) = Inr first \<and>
    get first ''thumbnails'' = Inr (JArr pts)"
  then obtain thumbnail where t: "last_of (JArr pts) = Inr thumbnail"
      "get thumbnail ''url'' = Inr (pt_url (p_thumbnail p))"
      "get thumbnail ''height'' = Inr (pt_height (p_thumbnail p))"
      "get thumbnail ''width'' = Inr (pt_width (p_thumbnail p))"
    using parsePlaylist_thumbnail [of pdata p pr outer first "JArr pts"] by blast
  from t(1,2) have ne: "pts \<noteq> []" and l: "thumbnail = last pts"
    by (auto simp: last_of_array split: if_splits)
  from ne show "pts \<noteq> []" .
  from t l show "get (last pts) ''url'' = Inr (pt_url (p_thumbnail p))" by simp
  from t l show "get (last pts) ''height'' = Inr (pt_height (p_thumbnail p))" by simp
  from t l show "get (last pts) ''width'' = Inr (pt_width (p_thumbnail p))" by simp
next
  assume "parseVideo vdata = Inr v \<and> get vdata ''videoRenderer'' = Inr vr"
  then show "get_path vr [''thumbnail'', ''thumbnails''] = Inr (v_thumbnails v)"
    using parseVideo_thumbnails by blast
qed

text \<open>
  Witness for C2 (amended): the example channel and playlist, whose lists end in
  the large thumbnail, and the example video.
\<close>

theorem extractors_thumbnail_witness:
  "parseChannel example_channel = Inr parsed_channel \<and>
   get_path example_channel_renderer [''thumbnail'', ''thumbnails''] =
     Inr (JArr [small_thumbnail, large_thumbnail]) \<and>
   get (last [small_thumbnail, large_thumbnail]) ''width'' = Inr (ci_width (c_icon parsed_channel)) \<and>
   parsePlaylist example_playlist = Inr parsed_playlist \<and>
   get (last [small_thumbnail, large_thumbnail]) ''url'' = Inr (pt_url (p_thumbnail parsed_playlist)) \<and>
   parseVideo example_video = Inr parsed_video \<and>
   get_path example_video_renderer [''thumbnail'', ''thumbnails''] = Inr (v_thumbnails parsed_video)"
proof -
  have c: "get_path example_channel_renderer [''thumbnail'', ''thumbnails''] =
      Inr (JArr [small_thumbnail, large_thumbnail])"
    by (simp add: example_channel_renderer_def)
  have p: "get example_playlist_renderer ''thumbnails'' = Inr (JArr [example_playlist_thumbnails])"
      "get_idx (JArr [example_playlist_thumbnails]) (JNum 0) = Inr example_playlist_thumbnails"
      "get example_playlist_thumbnails ''thumbnails'' = Inr (JArr [small_thumbnail, large_thumbnail])"
    by (simp_all add: example_playlist_renderer_def example_playlist_thumbnails_def)
  from c p parse_example_channel get_example_channel parse_example_playlist get_example_playlist
    parse_example_video get_example_video
    extractors_thumbnail [of example_channel parsed_channel example_channel_renderer
      "[small_thumbnail, large_thumbnail]" example_playlist parsed_playlist
      example_playlist_renderer "JArr [example_playlist_thumbnails]" example_playlist_thumbnails
      "[small_thumbnail, large_thumbnail]" example_video parsed_video example_video_renderer]
  show ?thesis by simp
qed

subsection \<open>C3: view counts\<close>



subsection \<open>C1: the unlimited search\<close>

text \<open>
  Claim C1 as stated fails: an entry that carries a recognized renderer other than
  the requested one is not skipped. For a page whose item list is a video entry
  followed by a channel entry, a search for videos with limit 0 does not return
  the one matching entry: the call aborts.
\<close>

theorem ParseSearchResult_other_renderer_aborts:
  "length (filter (matching (Some ''video'')) [example_video, example_channel]) = 1 \<and>
   ParseSearchResult (stub_JSON_parse ''PAYLOAD'' (envelope [example_video, example_channel]))
     example_page (search_options ''video'' 0) =
   Inl (Error ''Failed to Parse YouTube Video'')"
proof -
  have "length (filter (matching (Some ''video'')) [example_video, example_channel]) = 1"
    by code_simp
  moreover have "ParseSearchResult (stub_JSON_parse ''PAYLOAD'' (envelope [example_video, example_channel]))
     example_page (search_options ''video'' 0) =
   Inl (Error ''Failed to Parse YouTube Video'')"
    by code_simp
  ultimately show ?thesis by simp
qed

text \<open>
  Claim C1 (amended). For a valid page (the payload is found and parsed, the item
  list is reached) searched without a positive limit for one of the three types:
  if every entry of the item list either carries none of the three renderers or
  is parsed by the extractor of the requested type, the call returns exactly one
  result for each entry that carries the requested renderer, in source order and
  without truncation, the entries without any renderer being skipped; and if,
  after such entries, an entry carries one of the three renderers but not the
  requested one, the call aborts with the parse error of the extractor.
\<close>

theorem ParseSearchResult_unlimited:
  assumes "html \<noteq> []" "extract_data html = Some payload" "JSON_parse payload = Inr json_data"
    and "item_list json_data = Inr ds"
    and "opts = default_options options0" "\<not> hasLimit opts" "ty = opt_type opts" "known_type ty"
  shows "((\<forall>d \<in> set ds. well_formed ty d) \<longrightarrow>
           (\<exists>rs. ParseSearchResult JSON_parse html options0 = Inr rs \<and>
                 length rs = length (filter (matching ty) ds) \<and>
                 list_all2 (parses ty) (filter (matching ty) ds) rs)) \<and>
         (\<forall>pre d rest. ds = pre @ d # rest \<and> (\<forall>x \<in> set pre. well_formed ty x) \<and>
             no_renderer d = Inr False \<and> \<not> matching ty d \<longrightarrow>
           ParseSearchResult JSON_parse html options0 = Inl (parse_failure ty))"
proof -
  have w: "ParseSearchResult JSON_parse html options0 = walk ty False (opt_limit opts) ds []"
    using ParseSearchResult_walk [of html payload JSON_parse json_data ds options0] assms(1-7) by simp
  have "\<exists>rs. ParseSearchResult JSON_parse html options0 = Inr rs \<and>
          length rs = length (filter (matching ty) ds) \<and>
          list_all2 (parses ty) (filter (matching ty) ds) rs"
    if "\<forall>d \<in> set ds. well_formed ty d"
  proof -
    from walk_unlimited [OF assms(8) that, of "opt_limit opts" "[]"] obtain rs where
      "walk ty False (opt_limit opts) ds [] = Inr rs"
      "list_all2 (parses ty) (filter (matching ty) ds) rs" by auto
    with w list_all2_lengthD [OF this(2)] show ?thesis by auto
  qed
  moreover have "ParseSearchResult JSON_parse html options0 = Inl (parse_failure ty)"
    if "ds = pre @ d # rest" "\<forall>x \<in> set pre. well_formed ty x" "no_renderer d = Inr False"
      "\<not> matching ty d" for pre d rest
    using w that walk_abort [OF assms(8) that(2,3) dispatch_rejects [OF that(4) assms(8)]]
    by simp
  ultimately show ?thesis by blast
qed

text \<open>
  Witness for C1 (amended): a page with a shelf and two videos gives two results;
  a page where a channel entry follows aborts.
\<close>

theorem ParseSearchResult_unlimited_witness:
  "(\<exists>rs. ParseSearchResult
           (stub_JSON_parse ''PAYLOAD'' (envelope [example_shelf, example_video, example_live_video]))
           example_page (search_options ''video'' 0) = Inr rs \<and>
         length rs = 2 \<and>
         list_all2 (parses (Some ''video'')) [example_video, example_live_video] rs) \<and>
   ParseSearchResult
     (stub_JSON_parse ''PAYLOAD'' (envelope [example_shelf, example_video, example_channel]))
     example_page (search_options ''video'' 0) = Inl (Error ''Failed to Parse YouTube Video'')"
proof -
  let ?ds = "[example_shelf, example_video, example_live_video]"
  let ?es = "[example_shelf, example_video, example_channel]"
  let ?ty = "Some ''video''"
  let ?opts = "default_options (search_options ''video'' 0)"
  have page: "example_page \<noteq> []" by (simp add: example_page_def)
  have opts: "\<not> hasLimit ?opts" "?ty = opt_type ?opts"
    by (simp_all add: hasLimit_def default_options_def search_options_def)
  have known: "known_type ?ty" by (simp add: known_type_def)
  have wf: "\<forall>d \<in> set ?ds. well_formed ?ty d" by code_simp
  have m: "filter (matching ?ty) ?ds = [example_video, example_live_video]" by code_simp
  have pre: "\<forall>x \<in> set [example_shelf, example_video]. well_formed ?ty x" by code_simp
  have bad: "no_renderer example_channel = Inr False" "\<not> matching ?ty example_channel"
    by code_simp+
  have f: "parse_failure ?ty = Error ''Failed to Parse YouTube Video''"
    by (simp add: parse_failure_def)
  have j: "stub_JSON_parse ''PAYLOAD'' j ''PAYLOAD'' = Inr j" for j
    by (simp add: stub_JSON_parse_def)
  note first = ParseSearchResult_unlimited [of example_page "''PAYLOAD''"
      "stub_JSON_parse ''PAYLOAD'' (envelope ?ds)" "envelope ?ds" ?ds ?opts
      "search_options ''video'' 0" ?ty,
      OF page extract_example_page j item_list_envelope refl opts known]
  note second = ParseSearchResult_unlimited [of example_page "''PAYLOAD''"
      "stub_JSON_parse ''PAYLOAD'' (envelope ?es)" "envelope ?es" ?es ?opts
      "search_options ''video'' 0" ?ty,
      OF page extract_example_page j item_list_envelope refl opts known]
  from first have "(\<forall>d \<in> set ?ds. well_formed ?ty d) \<longrightarrow>
      (\<exists>rs. ParseSearchResult (stub_JSON_parse ''PAYLOAD'' (envelope ?ds))
           example_page (search_options ''video'' 0) = Inr rs \<and>
         length rs = length (filter (matching ?ty) ?ds) \<and>
         list_all2 (parses ?ty) (filter (matching ?ty) ?ds) rs)"
    by (rule conjunct1)
  from this [THEN mp, OF wf]
  have a: "\<exists>rs. ParseSearchResult (stub_JSON_parse ''PAYLOAD'' (envelope ?ds))
           example_page (search_options ''video'' 0) = Inr rs \<and>
         length rs = 2 \<and> list_all2 (parses ?ty) [example_video, example_live_video] rs"
    unfolding m by (auto simp: numeral_2_eq_2)
  from second have "\<forall>pre d rest. ?es = pre @ d # rest \<and> (\<forall>x \<in> set pre. well_formed ?ty x) \<and>
       no_renderer d = Inr False \<and> \<not> matching ?ty d \<longrightarrow>
     ParseSearchResult (stub_JSON_parse ''PAYLOAD'' (envelope ?es)) example_page
       (search_options ''video'' 0) = Inl (parse_failure ?ty)"
    by (rule conjunct2)
  from this [rule_format, of "[example_shelf, example_video]" example_channel "[]"] pre bad f
  have b: "ParseSearchResult (stub_JSON_parse ''PAYLOAD'' (envelope ?es)) example_page
       (search_options ''video'' 0) = Inl (Error ''Failed to Parse YouTube Video'')"
    by simp
  from a b show ?thesis by simp
qed

subsection \<open>C4: the limited search\<close>

text \<open>
  Claim C4. With a limit \<open>k > 0\<close> a call that returns has at most \<open>k\<close> results.
  If the item list starts with entries that the loop gets past and of which at
  least \<open>k\<close> carry the requested renderer, the call returns exactly \<open>k\<close> results,
  those of the first \<open>k\<close> such entries in source order, and the entries after this
  part of the list are never looked at: every page whose item list starts in the
  same way gives the same result, whatever follows.
\<close>

theorem ParseSearchResult_limited:
  assumes "html \<noteq> []" "extract_data html = Some payload" "JSON_parse payload = Inr json_data"
    and "item_list json_data = Inr (pre @ rest)"
    and "opts = default_options options0" "opt_limit opts = Some k" "0 < k" "ty = opt_type opts"
  shows "(\<forall>rs. ParseSearchResult JSON_parse html options0 = Inr rs \<longrightarrow> int (length rs) \<le> k) \<and>
         (known_type ty \<and> (\<forall>d \<in> set pre. well_formed ty d) \<and>
          k \<le> int (length (filter (matching ty) pre)) \<longrightarrow>
           (\<exists>rs. ParseSearchResult JSON_parse html options0 = Inr rs \<and>
                 int (length rs) = k \<and>
                 list_all2 (parses ty) (take (nat k) (filter (matching ty) pre)) rs \<and>
                 (\<forall>JSON_parse' html' payload' json_data' rest'.
                     html' \<noteq> [] \<and> extract_data html' = Some payload' \<and>
                     JSON_parse' payload' = Inr json_data' \<and>
                     item_list json_data' = Inr (pre @ rest') \<longrightarrow>
                     ParseSearchResult JSON_parse' html' options0 = Inr rs)))"
proof -
  have hl: "hasLimit opts" using assms(6,7) by (simp add: hasLimit_def)
  have w: "ParseSearchResult JSON_parse html options0 = walk ty True (Some k) (pre @ rest) []"
    using ParseSearchResult_walk [of html payload JSON_parse json_data "pre @ rest" options0] assms(1-6,8) hl
    by simp
  have "int (length rs) \<le> k" if "ParseSearchResult JSON_parse html options0 = Inr rs" for rs
    using walk_limited_length [of ty k "pre @ rest" "[]" rs] that w assms(7) by simp
  moreover have "\<exists>rs. ParseSearchResult JSON_parse html options0 = Inr rs \<and>
        int (length rs) = k \<and>
        list_all2 (parses ty) (take (nat k) (filter (matching ty) pre)) rs \<and>
        (\<forall>JSON_parse' html' payload' json_data' rest'.
            html' \<noteq> [] \<and> extract_data html' = Some payload' \<and>
            JSON_parse' payload' = Inr json_data' \<and>
            item_list json_data' = Inr (pre @ rest') \<longrightarrow>
            ParseSearchResult JSON_parse' html' options0 = Inr rs)"
    if "known_type ty" "\<forall>d \<in> set pre. well_formed ty d"
      "k \<le> int (length (filter (matching ty) pre))"
  proof -
    from walk_limited_prefix [OF that(1,2), of "[]" k] that(3) assms(7) obtain rs where rs:
      "\<forall>rest. walk ty True (Some k) (pre @ rest) [] = Inr rs" "int (length rs) = k"
      "list_all2 (parses ty) (take (nat k) (filter (matching ty) pre)) rs"
      by auto
    have "ParseSearchResult JSON_parse' html' options0 = Inr rs"
      if "html' \<noteq> []" "extract_data html' = Some payload'" "JSON_parse' payload' = Inr json_data'"
        "item_list json_data' = Inr (pre @ rest')" for JSON_parse' html' payload' json_data' rest'
      using ParseSearchResult_walk [of html' payload' JSON_parse' json_data' "pre @ rest'" options0]
        that assms(5,6,8) hl rs(1) by simp
    with rs w show ?thesis by auto
  qed
  ultimately show ?thesis by blast
qed

text \<open>
  Witness for C4: limit 2 on a page with a shelf, two videos and then a \<open>null\<close>
  entry, which would make the call throw if the loop read it.
\<close>

theorem ParseSearchResult_limited_witness:
  "(\<exists>rs. ParseSearchResult
           (stub_JSON_parse ''PAYLOAD''
              (envelope ([example_shelf, example_video, example_live_video] @ [JNull])))
           example_page (search_options ''video'' 2) = Inr rs \<and>
         int (length rs) = 2 \<and>
         list_all2 (parses (Some ''video'')) [example_video, example_live_video] rs) \<and>
   ParseSearchResult
     (stub_JSON_parse ''PAYLOAD''
        (envelope ([example_shelf, example_video, example_live_video] @ [JNull])))
     example_page (search_options ''video'' 2) =
   Inr [Video parsed_video, Video parsed_live_video]"
proof -
  let ?pre = "[example_shelf, example_video, example_live_video]"
  let ?ty = "Some ''video''"
  let ?opts = "default_options (search_options ''video'' 2)"
  have page: "example_page \<noteq> []" by (simp add: example_page_def)
  have opts: "opt_limit ?opts = Some 2" "?ty = opt_type ?opts"
    by (simp_all add: default_options_def search_options_def)
  have known: "known_type ?ty" by (simp add: known_type_def)
  have wf: "\<forall>d \<in> set ?pre. well_formed ?ty d" by code_simp
  have m: "filter (matching ?ty) ?pre = [example_video, example_live_video]" by code_simp
  have a: "\<exists>rs. ParseSearchResult (stub_JSON_parse ''PAYLOAD'' (envelope (?pre @ [JNull])))
           example_page (search_options ''video'' 2) = Inr rs \<and>
         int (length rs) = 2 \<and>
         list_all2 (parses ?ty) (take (nat 2) (filter (matching ?ty) ?pre)) rs"
    using ParseSearchResult_limited [of example_page "''PAYLOAD''"
        "stub_JSON_parse ''PAYLOAD'' (envelope (?pre @ [JNull]))" "envelope (?pre @ [JNull])" ?pre
        "[JNull]" ?opts "search_options ''video'' 2" 2 ?ty]
      page extract_example_page item_list_envelope [of "?pre @ [JNull]"] opts known wf m
    by (simp add: stub_JSON_parse_def) blast
  have b: "ParseSearchResult (stub_JSON_parse ''PAYLOAD'' (envelope (?pre @ [JNull])))
     example_page (search_options ''video'' 2) = Inr [Video parsed_video, Video parsed_live_video]"
    by code_simp
  from a b m show ?thesis by simp
qed

subsection \<open>C9: an unrecognized search type\<close>

text \<open>
  Claim C9. When the options name a type other than the three known ones, the
  error for the unknown type is raised on reaching the first entry that carries
  one of the three renderers; if the item list is empty or no entry carries any
  of them, the call returns the empty array.
\<close>

theorem ParseSearchResult_unknown_type:
  assumes "html \<noteq> []" "extract_data html = Some payload" "JSON_parse payload = Inr json_data"
    and "item_list json_data = Inr ds"
    and "options0 = Some given" "opt_type given = Some t" "t \<noteq> []" "\<not> known_type (Some t)"
  shows "((\<forall>d \<in> set ds. no_renderer d = Inr True) \<longrightarrow>
           ParseSearchResult JSON_parse html options0 = Inr []) \<and>
         (\<forall>pre d rest. ds = pre @ d # rest \<and> (\<forall>x \<in> set pre. no_renderer x = Inr True) \<and>
             no_renderer d = Inr False \<longrightarrow>
           ParseSearchResult JSON_parse html options0 =
             Inl (Error (''Unknown search type: '' @ t)))"
proof -
  let ?opts = "default_options options0"
  have o: "?opts = given" using assms(5-7) by (simp add: default_options_def)
  have lim: "hasLimit ?opts \<longrightarrow> opt_limit ?opts \<noteq> Some 0"
    by (auto simp: hasLimit_def split: option.splits)
  have w: "ParseSearchResult JSON_parse html options0 =
      walk (Some t) (hasLimit ?opts) (opt_limit ?opts) ds []"
    using ParseSearchResult_walk [of html payload JSON_parse json_data ds options0] assms(1-4) o assms(6)
    by simp
  have "ParseSearchResult JSON_parse html options0 = Inr []"
    if "\<forall>d \<in> set ds. no_renderer d = Inr True"
    using w walk_all_skipped [OF that lim] by simp
  moreover have "ParseSearchResult JSON_parse html options0 =
      Inl (Error (''Unknown search type: '' @ t))"
    if "ds = pre @ d # rest" "\<forall>x \<in> set pre. no_renderer x = Inr True"
      "no_renderer d = Inr False" for pre d rest
    using w that(1) walk_unknown_first [OF that(2) lim that(3) assms(8)] by simp
  ultimately show ?thesis by blast
qed

text \<open>
  Witness for C9: the type \<open>music\<close> on an empty item list, on a list with only a
  shelf, and on a list where a video follows the shelf.
\<close>

theorem ParseSearchResult_unknown_type_witness:
  "ParseSearchResult (stub_JSON_parse ''PAYLOAD'' (envelope [])) example_page
     (search_options ''music'' 0) = Inr [] \<and>
   ParseSearchResult (stub_JSON_parse ''PAYLOAD'' (envelope [example_shelf])) example_page
     (search_options ''music'' 0) = Inr [] \<and>
   ParseSearchResult (stub_JSON_parse ''PAYLOAD'' (envelope [example_shelf, example_video, JNull]))
     example_page (search_options ''music'' 0) = Inl (Error ''Unknown search type: music'')"
proof -
  let ?given = "\<lparr>opt_type = Some ''music'', opt_limit = Some 0, opt_language = None\<rparr>"
  let ?ds = "[example_shelf, example_video, JNull]"
  have page: "example_page \<noteq> []" by (simp add: example_page_def)
  have o: "search_options ''music'' 0 = Some ?given" "opt_type ?given = Some ''music''"
      "''music'' \<noteq> []" "\<not> known_type (Some ''music'')"
    by (simp_all add: search_options_def known_type_def)
  have s: "\<forall>d \<in> set [example_shelf]. no_renderer d = Inr True" by code_simp
  have v: "no_renderer example_video = Inr False" by code_simp
  have j: "stub_JSON_parse ''PAYLOAD'' j ''PAYLOAD'' = Inr j" for j
    by (simp add: stub_JSON_parse_def)
  note empty = ParseSearchResult_unknown_type [of example_page "''PAYLOAD''"
      "stub_JSON_parse ''PAYLOAD'' (envelope [])" "envelope []" "[]"
      "search_options ''music'' 0" ?given "''music''",
      OF page extract_example_page j item_list_envelope o]
  note shelf = ParseSearchResult_unknown_type [of example_page "''PAYLOAD''"
      "stub_JSON_parse ''PAYLOAD'' (envelope [example_shelf])" "envelope [example_shelf]"
      "[example_shelf]" "search_options ''music'' 0" ?given "''music''",
      OF page extract_example_page j item_list_envelope o]
  note video = ParseSearchResult_unknown_type [of example_page "''PAYLOAD''"
      "stub_JSON_parse ''PAYLOAD'' (envelope ?ds)" "envelope ?ds" ?ds
      "search_options ''music'' 0" ?given "''music''",
      OF page extract_example_page j item_list_envelope o]
  from empty have a: "ParseSearchResult (stub_JSON_parse ''PAYLOAD'' (envelope []))
      example_page (search_options ''music'' 0) = Inr []"
    by simp
  from shelf s
  have b: "ParseSearchResult (stub_JSON_parse ''PAYLOAD'' (envelope [example_shelf])) example_page
     (search_options ''music'' 0) = Inr []"
    by simp
  from video have "\<forall>pre d rest. ?ds = pre @ d # rest \<and>
       (\<forall>x \<in> set pre. no_renderer x = Inr True) \<and> no_renderer d = Inr False \<longrightarrow>
     ParseSearchResult (stub_JSON_parse ''PAYLOAD'' (envelope ?ds)) example_page
       (search_options ''music'' 0) = Inl (Error (''Unknown search type: '' @ ''music''))"
    by (rule conjunct2)
  from this [rule_format, of "[example_shelf]" example_video "[JNull]"] s v
  have c: "ParseSearchResult (stub_JSON_parse ''PAYLOAD'' (envelope ?ds)) example_page
     (search_options ''music'' 0) = Inl (Error ''Unknown search type: music'')"
    by simp
  from a b c show ?thesis by simp
qed

subsection \<open>C6: the kind of a resolved URL\<close>

text \<open>
  Claim C6. When the credential is present, the URL matches, the network answers
  and the answer parses to a value with a \<open>kind\<close> member: kind \<open>track\<close> gives a
  \<open>SoundCloudTrack\<close> made of the response, kind \<open>playlist\<close> a \<open>SoundCloudPlaylist\<close>
  made of the response and the client id, and any other kind the error that the
  URL is out of scope, and then no entity is made.
\<close>

theorem soundcloud_kind:
  assumes "truthy soundData" "matches pattern url"
    and "get soundData ''client_id'' = Inr client_id" "to_string client_id = Inr cid"
    and "request (''https://api-v2.soundcloud.com/resolve?url='' @ url @ ''&client_id='' @ cid) = Inr body"
    and "JSON_parse body = Inr json_data" "get json_data ''kind'' = Inr kind"
  shows "(kind = JStr ''track'' \<longrightarrow>
            soundcloud soundData request JSON_parse url = Inr (NewSoundCloudTrack json_data)) \<and>
         (kind = JStr ''playlist'' \<longrightarrow>
            soundcloud soundData request JSON_parse url =
              Inr (NewSoundCloudPlaylist json_data client_id)) \<and>
         (kind \<noteq> JStr ''track'' \<and> kind \<noteq> JStr ''playlist'' \<longrightarrow>
            soundcloud soundData request JSON_parse url =
              Inl (Error ''This url is out of scope for play-dl.''))"
  using assms by (simp add: soundcloud_def)

text \<open>Witness for C6: responses of kind \<open>track\<close>, \<open>playlist\<close> and \<open>user\<close>.\<close>

theorem soundcloud_kind_witness:
  "soundcloud example_soundData (answer ''BODY'') (stub_JSON_parse ''BODY'' (response_of_kind ''track''))
     ''https://soundcloud.com/x/y'' = Inr (NewSoundCloudTrack (response_of_kind ''track'')) \<and>
   soundcloud example_soundData (answer ''BODY'') (stub_JSON_parse ''BODY'' (response_of_kind ''playlist''))
     ''https://soundcloud.com/x/y'' =
     Inr (NewSoundCloudPlaylist (response_of_kind ''playlist'') (JStr ''abc'')) \<and>
   soundcloud example_soundData (answer ''BODY'') (stub_JSON_parse ''BODY'' (response_of_kind ''user''))
     ''https://soundcloud.com/x/y'' = Inl (Error ''This url is out of scope for play-dl.'')"
proof -
  let ?url = "''https://soundcloud.com/x/y''"
  have t: "truthy example_soundData" by (simp add: example_soundData_def)
  have m: "matches pattern ?url" by code_simp
  have c: "get example_soundData ''client_id'' = Inr (JStr ''abc'')" "to_string (JStr ''abc'') = Inr ''abc''"
    by (simp_all add: example_soundData_def)
  have r: "answer ''BODY'' (''https://api-v2.soundcloud.com/resolve?url='' @ ?url @ ''&client_id='' @ ''abc'') = Inr ''BODY''"
    by (simp add: answer_def)
  have j: "stub_JSON_parse ''BODY'' (response_of_kind k) ''BODY'' = Inr (response_of_kind k)" for k
    by (simp add: stub_JSON_parse_def)
  have k: "get (response_of_kind k) ''kind'' = Inr (JStr k)" for k
    by (simp add: response_of_kind_def)
  note track = soundcloud_kind [of example_soundData ?url "JStr ''abc''" "''abc''" "answer ''BODY''"
      "''BODY''" "stub_JSON_parse ''BODY'' (response_of_kind ''track'')" "response_of_kind ''track''"
      "JStr ''track''", OF t m c r j k]
  note playlist = soundcloud_kind [of example_soundData ?url "JStr ''abc''" "''abc''" "answer ''BODY''"
      "''BODY''" "stub_JSON_parse ''BODY'' (response_of_kind ''playlist'')"
      "response_of_kind ''playlist''" "JStr ''playlist''", OF t m c r j k]
  note user = soundcloud_kind [of example_soundData ?url "JStr ''abc''" "''abc''" "answer ''BODY''"
      "''BODY''" "stub_JSON_parse ''BODY'' (response_of_kind ''user'')" "response_of_kind ''user''"
      "JStr ''user''", OF t m c r j k]
  from track playlist user show ?thesis by simp
qed

subsection \<open>C7: the URL pattern\<close>




subsection \<open>C8: the credential probe\<close>

text \<open>
  Claim C8. For every id, \<open>check_id\<close> returns \<open>false\<close> when the network call
  fails and \<open>true\<close> when it succeeds; it never throws.
\<close>

theorem check_id_never_throws:
  "(\<forall>err. request (''https://api-v2.soundcloud.com/search?client_id='' @ i @ ''&q=Rick+Roll&limit=0'') =
           Inl err \<longrightarrow> check_id request i = Inr False) \<and>
   (\<forall>response. request (''https://api-v2.soundcloud.com/search?client_id='' @ i @ ''&q=Rick+Roll&limit=0'') =
           Inr response \<longrightarrow> check_id request i = Inr True) \<and>
   (\<exists>b. check_id request i = Inr b)"
  unfolding check_id_def by (auto split: sum.splits)

text \<open>Witness for C8: a network that refuses, and one that answers.\<close>

theorem check_id_never_throws_witness:
  "check_id refuse ''revoked'' = Inr False \<and> check_id (answer ''{}'') ''abc'' = Inr True"
  using check_id_never_throws [of refuse "''revoked''"] check_id_never_throws [of "answer ''{}''" "''abc''"]
  by (simp add: refuse_def answer_def)

subsection \<open>C10: reading the credential without the guard\<close>

text \<open>
  Claim C10. When no credential has been loaded, \<open>stream_from_info\<close> and
  \<open>so_validate\<close> fail with the runtime's \<open>TypeError\<close>, for every track, URL and
  network, whereas the resolver \<open>soundcloud\<close> fails with its own error that the
  data is missing.
\<close>

theorem unguarded_credential_reads:
  "stream_from_info JUndefined request JSON_parse data = Inl TypeError \<and>
   so_validate JUndefined request JSON_parse url = Inl TypeError \<and>
   soundcloud JUndefined request JSON_parse url = Inl (Error missing_data) \<and>
   Error missing_data \<noteq> TypeError"
  by (simp add: stream_from_info_def so_validate_def soundcloud_def Let_def split: list.splits)

text \<open>Witness for C10: the example track and a SoundCloud URL, on a network that answers.\<close>

theorem unguarded_credential_reads_witness:
  "stream_from_info JUndefined (answer ''BODY'') (stub_JSON_parse ''BODY'' JNull) example_track =
     Inl TypeError \<and>
   so_validate JUndefined (answer ''BODY'') (stub_JSON_parse ''BODY'' JNull) ''https://soundcloud.com/x/y'' =
     Inl TypeError \<and>
   soundcloud JUndefined (answer ''BODY'') (stub_JSON_parse ''BODY'' JNull) ''https://soundcloud.com/x/y'' =
     Inl (Error missing_data)"
  using unguarded_credential_reads [of "answer ''BODY''" "stub_JSON_parse ''BODY'' JNull" example_track
      "''https://soundcloud.com/x/y''"]
  by simp

end
